theory Spec2Isabelle
  imports Main "HOL-Library.Word"
begin

unbundle bit_operations_syntax

section \<open>The redismasking processor\<close>

text \<open>
  A shallow embedding of \<^verbatim>\<open>processor/redismasking/processor.go\<close>.  Go strings are byte
  strings, modelled as \<^typ>\<open>string\<close> (a list of 8-bit characters).  The library calls the
  processor makes (\<^verbatim>\<open>crypto/sha256\<close>, \<^verbatim>\<open>encoding/hex\<close>, \<^verbatim>\<open>fmt\<close>, \<^verbatim>\<open>regexp\<close>) are
  modelled after their documented behaviour; the Redis server and the compiled regular
  expressions are collaborators whose behaviour is left arbitrary.
\<close>

type_synonym byte = "8 word"
type_synonym u32 = "32 word"

definition bytes_of :: "string \<Rightarrow> byte list" where
  "bytes_of s = map (\<lambda>c. of_nat (of_char c)) s"

subsection \<open>\<^verbatim>\<open>crypto/sha256\<close>: \<^verbatim>\<open>Sum256\<close> (FIPS 180-4)\<close>

definition rotr :: "nat \<Rightarrow> u32 \<Rightarrow> u32" where
  "rotr n x = (drop_bit n x) OR (push_bit (32 - n) x)"

text \<open>The round constants, eight rounds to a row.\<close>

definition sha_K_0 :: "u32 list" where
  "sha_K_0 = [0x428a2f98, 0x71374491, 0xb5c0fbcf, 0xe9b5dba5,
               0x3956c25b, 0x59f111f1, 0x923f82a4, 0xab1c5ed5]"

definition sha_K_1 :: "u32 list" where
  "sha_K_1 = [0xd807aa98, 0x12835b01, 0x243185be, 0x550c7dc3,
               0x72be5d74, 0x80deb1fe, 0x9bdc06a7, 0xc19bf174]"

definition sha_K_2 :: "u32 list" where
  "sha_K_2 = [0xe49b69c1, 0xefbe4786, 0x0fc19dc6, 0x240ca1cc,
               0x2de92c6f, 0x4a7484aa, 0x5cb0a9dc, 0x76f988da]"

definition sha_K_3 :: "u32 list" where
  "sha_K_3 = [0x983e5152, 0xa831c66d, 0xb00327c8, 0xbf597fc7,
               0xc6e00bf3, 0xd5a79147, 0x06ca6351, 0x14292967]"

definition sha_K_4 :: "u32 list" where
  "sha_K_4 = [0x27b70a85, 0x2e1b2138, 0x4d2c6dfc, 0x53380d13,
               0x650a7354, 0x766a0abb, 0x81c2c92e, 0x92722c85]"

definition sha_K_5 :: "u32 list" where
  "sha_K_5 = [0xa2bfe8a1, 0xa81a664b, 0xc24b8b70, 0xc76c51a3,
               0xd192e819, 0xd6990624, 0xf40e3585, 0x106aa070]"

definition sha_K_6 :: "u32 list" where
  "sha_K_6 = [0x19a4c116, 0x1e376c08, 0x2748774c, 0x34b0bcb5,
               0x391c0cb3, 0x4ed8aa4a, 0x5b9cca4f, 0x682e6ff3]"

definition sha_K_7 :: "u32 list" where
  "sha_K_7 = [0x748f82ee, 0x78a5636f, 0x84c87814, 0x8cc70208,
               0x90befffa, 0xa4506ceb, 0xbef9a3f7, 0xc67178f2]"

definition sha_K :: "u32 list" where
  "sha_K = sha_K_0 @ sha_K_1 @ sha_K_2 @ sha_K_3 @ sha_K_4 @ sha_K_5 @ sha_K_6 @ sha_K_7"

definition sha_H0 :: "u32 list" where
  "sha_H0 = [0x6a09e667, 0xbb67ae85, 0x3c6ef372, 0xa54ff53a,
             0x510e527f, 0x9b05688c, 0x1f83d9ab, 0x5be0cd19]"

definition be32 :: "byte list \<Rightarrow> u32" where
  "be32 bs = foldl (\<lambda>acc b. push_bit 8 acc OR ucast b) 0 (take 4 bs)"

definition u32_bytes :: "u32 \<Rightarrow> byte list" where
  "u32_bytes x = [ucast (drop_bit 24 x), ucast (drop_bit 16 x), ucast (drop_bit 8 x), ucast x]"

definition u64_bytes :: "64 word \<Rightarrow> byte list" where
  "u64_bytes x =
     [ucast (drop_bit 56 x), ucast (drop_bit 48 x), ucast (drop_bit 40 x), ucast (drop_bit 32 x),
      ucast (drop_bit 24 x), ucast (drop_bit 16 x), ucast (drop_bit 8 x), ucast x]"

text \<open>The message, a 1 bit, zeros up to 56 mod 64, and the bit length as 64 bits.\<close>

definition sha_pad :: "byte list \<Rightarrow> byte list" where
  "sha_pad m = m @ [0x80] @ replicate ((119 - length m mod 64) mod 64) 0
                 @ u64_bytes (8 * of_nat (length m))"

fun sha_blocks :: "nat \<Rightarrow> byte list \<Rightarrow> byte list list" where
  "sha_blocks 0 bs = []"
| "sha_blocks (Suc n) bs = take 64 bs # sha_blocks n (drop 64 bs)"

fun sha_words :: "nat \<Rightarrow> byte list \<Rightarrow> u32 list" where
  "sha_words 0 bs = []"
| "sha_words (Suc n) bs = be32 bs # sha_words n (drop 4 bs)"

definition ssig0 :: "u32 \<Rightarrow> u32" where
  "ssig0 x = rotr 7 x XOR rotr 18 x XOR drop_bit 3 x"

definition ssig1 :: "u32 \<Rightarrow> u32" where
  "ssig1 x = rotr 17 x XOR rotr 19 x XOR drop_bit 10 x"

definition bsig0 :: "u32 \<Rightarrow> u32" where
  "bsig0 x = rotr 2 x XOR rotr 13 x XOR rotr 22 x"

definition bsig1 :: "u32 \<Rightarrow> u32" where
  "bsig1 x = rotr 6 x XOR rotr 11 x XOR rotr 25 x"

definition sha_ch :: "u32 \<Rightarrow> u32 \<Rightarrow> u32 \<Rightarrow> u32" where
  "sha_ch e f g = (e AND f) XOR (NOT e AND g)"

definition sha_maj :: "u32 \<Rightarrow> u32 \<Rightarrow> u32 \<Rightarrow> u32" where
  "sha_maj a b c = (a AND b) XOR (a AND c) XOR (b AND c)"

text \<open>The message schedule, newest word first: 48 words are added to the 16 of the block.\<close>

fun sha_sched :: "nat \<Rightarrow> u32 list \<Rightarrow> u32 list" where
  "sha_sched 0 ws = ws"
| "sha_sched (Suc n) ws =
     sha_sched n ((ssig1 (ws ! 1) + ws ! 6 + ssig0 (ws ! 14) + ws ! 15) # ws)"

fun sha_shuffle :: "u32 \<Rightarrow> u32 \<Rightarrow> u32 list \<Rightarrow> u32 list" where
  "sha_shuffle t1 t2 [a, b, c, d, e, f, g, h] = [t1 + t2, a, b, c, d + t1, e, f, g]"
| "sha_shuffle t1 t2 st = st"

fun sha_round :: "u32 \<Rightarrow> u32 \<Rightarrow> u32 list \<Rightarrow> u32 list" where
  "sha_round k w [a, b, c, d, e, f, g, h] =
     sha_shuffle (h + bsig1 e + sha_ch e f g + k + w) (bsig0 a + sha_maj a b c)
       [a, b, c, d, e, f, g, h]"
| "sha_round k w st = st"

fun sha_rounds :: "u32 list \<Rightarrow> u32 list \<Rightarrow> u32 list \<Rightarrow> u32 list" where
  "sha_rounds (k # ks) (w # ws) st = sha_rounds ks ws (sha_round k w st)"
| "sha_rounds _ _ st = st"

definition sha_compress :: "u32 list \<Rightarrow> byte list \<Rightarrow> u32 list" where
  "sha_compress hs blk =
     map2 (+) hs (sha_rounds sha_K (rev (sha_sched 48 (rev (sha_words 16 blk)))) hs)"

definition Sum256 :: "byte list \<Rightarrow> byte list" where
  "Sum256 m =
     concat (map u32_bytes
       (foldl sha_compress sha_H0 (sha_blocks (length (sha_pad m) div 64) (sha_pad m))))"

subsection \<open>\<^verbatim>\<open>encoding/hex\<close> and \<^verbatim>\<open>fmt\<close>\<close>

definition hexdigit :: "nat \<Rightarrow> char" where
  "hexdigit n = ''0123456789abcdef'' ! n"

definition hex_byte :: "byte \<Rightarrow> string" where
  "hex_byte b = [hexdigit (unat (drop_bit 4 b)), hexdigit (unat (b AND 0x0f))]"

definition EncodeToString :: "byte list \<Rightarrow> string" where
  "EncodeToString bs = concat (map hex_byte bs)"

definition digit_char :: "nat \<Rightarrow> char" where
  "digit_char n = ''0123456789'' ! n"

text \<open>The verb \<^verbatim>\<open>%d\<close> on an unsigned value: its decimal digits, no padding.\<close>

function fmt_d :: "nat \<Rightarrow> string" where
  "fmt_d n = (if n < 10 then [digit_char n] else fmt_d (n div 10) @ [digit_char (n mod 10)])"
  by pat_completeness auto
termination
  by (relation "measure id") auto

declare fmt_d.simps [simp del]

subsection \<open>\<^verbatim>\<open>unicode/utf8\<close>\<close>

definition byte_in :: "nat \<Rightarrow> nat \<Rightarrow> char \<Rightarrow> bool" where
  "byte_in lo hi c = (lo \<le> (of_char c :: nat) \<and> (of_char c :: nat) \<le> hi)"

text \<open>
  For a leading byte above 0x7f: the length of the encoding it starts and the range of
  the byte that must follow it; the bytes after that one are in 0x80..0xbf.
\<close>

definition rune_first :: "char \<Rightarrow> (nat \<times> nat \<times> nat) option" where
  "rune_first c =
     (if byte_in 0xC2 0xDF c then Some (2, 0x80, 0xBF)
      else if byte_in 0xE0 0xE0 c then Some (3, 0xA0, 0xBF)
      else if byte_in 0xE1 0xEC c then Some (3, 0x80, 0xBF)
      else if byte_in 0xED 0xED c then Some (3, 0x80, 0x9F)
      else if byte_in 0xEE 0xEF c then Some (3, 0x80, 0xBF)
      else if byte_in 0xF0 0xF0 c then Some (4, 0x90, 0xBF)
      else if byte_in 0xF1 0xF3 c then Some (4, 0x80, 0xBF)
      else if byte_in 0xF4 0xF4 c then Some (4, 0x80, 0x8F)
      else None)"

text \<open>
  The width \<^verbatim>\<open>utf8.DecodeRuneInString\<close> returns: 0 on the empty string, 1 on an ASCII
  byte and on a byte that starts no valid encoding, else the length of the encoding.
\<close>

definition rune_width :: "string \<Rightarrow> nat" where
  "rune_width s =
     (case s of
        [] \<Rightarrow> 0
      | c # cs \<Rightarrow>
          if byte_in 0 0x7F c then 1
          else (case rune_first c of
                  None \<Rightarrow> 1
                | Some (n, lo, hi) \<Rightarrow>
                    (case cs of
                       [] \<Rightarrow> 1
                     | c1 # cs1 \<Rightarrow>
                         if byte_in lo hi c1 \<and> n - 2 \<le> length cs1
                            \<and> list_all (byte_in 0x80 0xBF) (take (n - 2) cs1)
                         then n else 1)))"

text \<open>
  The rune \<^verbatim>\<open>utf8.DecodeRuneInString\<close> returns, as a code point: the replacement
  character U+FFFD where the bytes start no valid encoding.
\<close>

definition rune_value :: "string \<Rightarrow> nat" where
  "rune_value s =
     (case s of
        [] \<Rightarrow> 0xFFFD
      | c # cs \<Rightarrow>
          if rune_width s = 2 then of_char c mod 32 * 64 + of_char (cs ! 0) mod 64
          else if rune_width s = 3 then
            of_char c mod 16 * 4096 + of_char (cs ! 0) mod 64 * 64 + of_char (cs ! 1) mod 64
          else if rune_width s = 4 then
            of_char c mod 8 * 262144 + of_char (cs ! 0) mod 64 * 4096
              + of_char (cs ! 1) mod 64 * 64 + of_char (cs ! 2) mod 64
          else if byte_in 0 0x7F c then of_char c
          else 0xFFFD)"

subsection \<open>\<^verbatim>\<open>unicode\<close>: letters and decimal digits\<close>

text \<open>
  The code points of the general categories L (letters) and Nd (decimal digits), as
  ranges, from the character database of Unicode 14.0.  Go's tables follow the Unicode
  version of the Go release; later versions add to these ranges.
\<close>

definition letter_ranges :: "(nat \<times> nat) list" where
  "letter_ranges =
     [
      (65, 90), (97, 122), (170, 170), (181, 181), (186, 186), (192, 214),
      (216, 246), (248, 705), (710, 721), (736, 740), (748, 748), (750, 750),
      (880, 884), (886, 887), (890, 893), (895, 895), (902, 902), (904, 906),
      (908, 908), (910, 929), (931, 1013), (1015, 1153), (1162, 1327), (1329, 1366),
      (1369, 1369), (1376, 1416), (1488, 1514), (1519, 1522), (1568, 1610), (1646, 1647),
      (1649, 1747), (1749, 1749), (1765, 1766), (1774, 1775), (1786, 1788), (1791, 1791),
      (1808, 1808), (1810, 1839), (1869, 1957), (1969, 1969), (1994, 2026), (2036, 2037),
      (2042, 2042), (2048, 2069), (2074, 2074), (2084, 2084), (2088, 2088), (2112, 2136),
      (2144, 2154), (2160, 2183), (2185, 2190), (2208, 2249), (2308, 2361), (2365, 2365),
      (2384, 2384), (2392, 2401), (2417, 2432), (2437, 2444), (2447, 2448), (2451, 2472),
      (2474, 2480), (2482, 2482), (2486, 2489), (2493, 2493), (2510, 2510), (2524, 2525),
      (2527, 2529), (2544, 2545), (2556, 2556), (2565, 2570), (2575, 2576), (2579, 2600),
      (2602, 2608), (2610, 2611), (2613, 2614), (2616, 2617), (2649, 2652), (2654, 2654),
      (2674, 2676), (2693, 2701), (2703, 2705), (2707, 2728), (2730, 2736), (2738, 2739),
      (2741, 2745), (2749, 2749), (2768, 2768), (2784, 2785), (2809, 2809), (2821, 2828),
      (2831, 2832), (2835, 2856), (2858, 2864), (2866, 2867), (2869, 2873), (2877, 2877),
      (2908, 2909), (2911, 2913), (2929, 2929), (2947, 2947), (2949, 2954), (2958, 2960),
      (2962, 2965), (2969, 2970), (2972, 2972), (2974, 2975), (2979, 2980), (2984, 2986),
      (2990, 3001), (3024, 3024), (3077, 3084), (3086, 3088), (3090, 3112), (3114, 3129),
      (3133, 3133), (3160, 3162), (3165, 3165), (3168, 3169), (3200, 3200), (3205, 3212),
      (3214, 3216), (3218, 3240), (3242, 3251), (3253, 3257), (3261, 3261), (3293, 3294),
      (3296, 3297), (3313, 3314), (3332, 3340), (3342, 3344), (3346, 3386), (3389, 3389),
      (3406, 3406), (3412, 3414), (3423, 3425), (3450, 3455), (3461, 3478), (3482, 3505),
      (3507, 3515), (3517, 3517), (3520, 3526), (3585, 3632), (3634, 3635), (3648, 3654),
      (3713, 3714), (3716, 3716), (3718, 3722), (3724, 3747), (3749, 3749), (3751, 3760),
      (3762, 3763), (3773, 3773), (3776, 3780), (3782, 3782), (3804, 3807), (3840, 3840),
      (3904, 3911), (3913, 3948), (3976, 3980), (4096, 4138), (4159, 4159), (4176, 4181),
      (4186, 4189), (4193, 4193), (4197, 4198), (4206, 4208), (4213, 4225), (4238, 4238),
      (4256, 4293), (4295, 4295), (4301, 4301), (4304, 4346), (4348, 4680), (4682, 4685),
      (4688, 4694), (4696, 4696), (4698, 4701), (4704, 4744), (4746, 4749), (4752, 4784),
      (4786, 4789), (4792, 4798), (4800, 4800), (4802, 4805), (4808, 4822), (4824, 4880),
      (4882, 4885), (4888, 4954), (4992, 5007), (5024, 5109), (5112, 5117), (5121, 5740),
      (5743, 5759), (5761, 5786), (5792, 5866), (5873, 5880), (5888, 5905), (5919, 5937),
      (5952, 5969), (5984, 5996), (5998, 6000), (6016, 6067), (6103, 6103), (6108, 6108),
      (6176, 6264), (6272, 6276), (6279, 6312), (6314, 6314), (6320, 6389), (6400, 6430),
      (6480, 6509), (6512, 6516), (6528, 6571), (6576, 6601), (6656, 6678), (6688, 6740),
      (6823, 6823), (6917, 6963), (6981, 6988), (7043, 7072), (7086, 7087), (7098, 7141),
      (7168, 7203), (7245, 7247), (7258, 7293), (7296, 7304), (7312, 7354), (7357, 7359),
      (7401, 7404), (7406, 7411), (7413, 7414), (7418, 7418), (7424, 7615), (7680, 7957),
      (7960, 7965), (7968, 8005), (8008, 8013), (8016, 8023), (8025, 8025), (8027, 8027),
      (8029, 8029), (8031, 8061), (8064, 8116), (8118, 8124), (8126, 8126), (8130, 8132),
      (8134, 8140), (8144, 8147), (8150, 8155), (8160, 8172), (8178, 8180), (8182, 8188),
      (8305, 8305), (8319, 8319), (8336, 8348), (8450, 8450), (8455, 8455), (8458, 8467),
      (8469, 8469), (8473, 8477), (8484, 8484), (8486, 8486), (8488, 8488), (8490, 8493),
      (8495, 8505), (8508, 8511), (8517, 8521), (8526, 8526), (8579, 8580), (11264, 11492),
      (11499, 11502), (11506, 11507), (11520, 11557), (11559, 11559), (11565, 11565), (11568, 11623),
      (11631, 11631), (11648, 11670), (11680, 11686), (11688, 11694), (11696, 11702), (11704, 11710),
      (11712, 11718), (11720, 11726), (11728, 11734), (11736, 11742), (11823, 11823), (12293, 12294),
      (12337, 12341), (12347, 12348), (12353, 12438), (12445, 12447), (12449, 12538), (12540, 12543),
      (12549, 12591), (12593, 12686), (12704, 12735), (12784, 12799), (13312, 19903), (19968, 42124),
      (42192, 42237), (42240, 42508), (42512, 42527), (42538, 42539), (42560, 42606), (42623, 42653),
      (42656, 42725), (42775, 42783), (42786, 42888), (42891, 42954), (42960, 42961), (42963, 42963),
      (42965, 42969), (42994, 43009), (43011, 43013), (43015, 43018), (43020, 43042), (43072, 43123),
      (43138, 43187), (43250, 43255), (43259, 43259), (43261, 43262), (43274, 43301), (43312, 43334),
      (43360, 43388), (43396, 43442), (43471, 43471), (43488, 43492), (43494, 43503), (43514, 43518),
      (43520, 43560), (43584, 43586), (43588, 43595), (43616, 43638), (43642, 43642), (43646, 43695),
      (43697, 43697), (43701, 43702), (43705, 43709), (43712, 43712), (43714, 43714), (43739, 43741),
      (43744, 43754), (43762, 43764), (43777, 43782), (43785, 43790), (43793, 43798), (43808, 43814),
      (43816, 43822), (43824, 43866), (43868, 43881), (43888, 44002), (44032, 55203), (55216, 55238),
      (55243, 55291), (63744, 64109), (64112, 64217), (64256, 64262), (64275, 64279), (64285, 64285),
      (64287, 64296), (64298, 64310), (64312, 64316), (64318, 64318), (64320, 64321), (64323, 64324),
      (64326, 64433), (64467, 64829), (64848, 64911), (64914, 64967), (65008, 65019), (65136, 65140),
      (65142, 65276), (65313, 65338), (65345, 65370), (65382, 65470), (65474, 65479), (65482, 65487),
      (65490, 65495), (65498, 65500), (65536, 65547), (65549, 65574), (65576, 65594), (65596, 65597),
      (65599, 65613), (65616, 65629), (65664, 65786), (66176, 66204), (66208, 66256), (66304, 66335),
      (66349, 66368), (66370, 66377), (66384, 66421), (66432, 66461), (66464, 66499), (66504, 66511),
      (66560, 66717), (66736, 66771), (66776, 66811), (66816, 66855), (66864, 66915), (66928, 66938),
      (66940, 66954), (66956, 66962), (66964, 66965), (66967, 66977), (66979, 66993), (66995, 67001),
      (67003, 67004), (67072, 67382), (67392, 67413), (67424, 67431), (67456, 67461), (67463, 67504),
      (67506, 67514), (67584, 67589), (67592, 67592), (67594, 67637), (67639, 67640), (67644, 67644),
      (67647, 67669), (67680, 67702), (67712, 67742), (67808, 67826), (67828, 67829), (67840, 67861),
      (67872, 67897), (67968, 68023), (68030, 68031), (68096, 68096), (68112, 68115), (68117, 68119),
      (68121, 68149), (68192, 68220), (68224, 68252), (68288, 68295), (68297, 68324), (68352, 68405),
      (68416, 68437), (68448, 68466), (68480, 68497), (68608, 68680), (68736, 68786), (68800, 68850),
      (68864, 68899), (69248, 69289), (69296, 69297), (69376, 69404), (69415, 69415), (69424, 69445),
      (69488, 69505), (69552, 69572), (69600, 69622), (69635, 69687), (69745, 69746), (69749, 69749),
      (69763, 69807), (69840, 69864), (69891, 69926), (69956, 69956), (69959, 69959), (69968, 70002),
      (70006, 70006), (70019, 70066), (70081, 70084), (70106, 70106), (70108, 70108), (70144, 70161),
      (70163, 70187), (70272, 70278), (70280, 70280), (70282, 70285), (70287, 70301), (70303, 70312),
      (70320, 70366), (70405, 70412), (70415, 70416), (70419, 70440), (70442, 70448), (70450, 70451),
      (70453, 70457), (70461, 70461), (70480, 70480), (70493, 70497), (70656, 70708), (70727, 70730),
      (70751, 70753), (70784, 70831), (70852, 70853), (70855, 70855), (71040, 71086), (71128, 71131),
      (71168, 71215), (71236, 71236), (71296, 71338), (71352, 71352), (71424, 71450), (71488, 71494),
      (71680, 71723), (71840, 71903), (71935, 71942), (71945, 71945), (71948, 71955), (71957, 71958),
      (71960, 71983), (71999, 71999), (72001, 72001), (72096, 72103), (72106, 72144), (72161, 72161),
      (72163, 72163), (72192, 72192), (72203, 72242), (72250, 72250), (72272, 72272), (72284, 72329),
      (72349, 72349), (72368, 72440), (72704, 72712), (72714, 72750), (72768, 72768), (72818, 72847),
      (72960, 72966), (72968, 72969), (72971, 73008), (73030, 73030), (73056, 73061), (73063, 73064),
      (73066, 73097), (73112, 73112), (73440, 73458), (73648, 73648), (73728, 74649), (74880, 75075),
      (77712, 77808), (77824, 78894), (82944, 83526), (92160, 92728), (92736, 92766), (92784, 92862),
      (92880, 92909), (92928, 92975), (92992, 92995), (93027, 93047), (93053, 93071), (93760, 93823),
      (93952, 94026), (94032, 94032), (94099, 94111), (94176, 94177), (94179, 94179), (94208, 100343),
      (100352, 101589), (101632, 101640), (110576, 110579), (110581, 110587), (110589, 110590), (110592, 110882),
      (110928, 110930), (110948, 110951), (110960, 111355), (113664, 113770), (113776, 113788), (113792, 113800),
      (113808, 113817), (119808, 119892), (119894, 119964), (119966, 119967), (119970, 119970), (119973, 119974),
      (119977, 119980), (119982, 119993), (119995, 119995), (119997, 120003), (120005, 120069), (120071, 120074),
      (120077, 120084), (120086, 120092), (120094, 120121), (120123, 120126), (120128, 120132), (120134, 120134),
      (120138, 120144), (120146, 120485), (120488, 120512), (120514, 120538), (120540, 120570), (120572, 120596),
      (120598, 120628), (120630, 120654), (120656, 120686), (120688, 120712), (120714, 120744), (120746, 120770),
      (120772, 120779), (122624, 122654), (123136, 123180), (123191, 123197), (123214, 123214), (123536, 123565),
      (123584, 123627), (124896, 124902), (124904, 124907), (124909, 124910), (124912, 124926), (124928, 125124),
      (125184, 125251), (125259, 125259), (126464, 126467), (126469, 126495), (126497, 126498), (126500, 126500),
      (126503, 126503), (126505, 126514), (126516, 126519), (126521, 126521), (126523, 126523), (126530, 126530),
      (126535, 126535), (126537, 126537), (126539, 126539), (126541, 126543), (126545, 126546), (126548, 126548),
      (126551, 126551), (126553, 126553), (126555, 126555), (126557, 126557), (126559, 126559), (126561, 126562),
      (126564, 126564), (126567, 126570), (126572, 126578), (126580, 126583), (126585, 126588), (126590, 126590),
      (126592, 126601), (126603, 126619), (126625, 126627), (126629, 126633), (126635, 126651), (131072, 173791),
      (173824, 177976), (177984, 178205), (178208, 183969), (183984, 191456), (194560, 195101), (196608, 201546)]"

definition digit_ranges :: "(nat \<times> nat) list" where
  "digit_ranges =
     [
      (48, 57), (1632, 1641), (1776, 1785), (1984, 1993), (2406, 2415), (2534, 2543),
      (2662, 2671), (2790, 2799), (2918, 2927), (3046, 3055), (3174, 3183), (3302, 3311),
      (3430, 3439), (3558, 3567), (3664, 3673), (3792, 3801), (3872, 3881), (4160, 4169),
      (4240, 4249), (6112, 6121), (6160, 6169), (6470, 6479), (6608, 6617), (6784, 6793),
      (6800, 6809), (6992, 7001), (7088, 7097), (7232, 7241), (7248, 7257), (42528, 42537),
      (43216, 43225), (43264, 43273), (43472, 43481), (43504, 43513), (43600, 43609), (44016, 44025),
      (65296, 65305), (66720, 66729), (68912, 68921), (69734, 69743), (69872, 69881), (69942, 69951),
      (70096, 70105), (70384, 70393), (70736, 70745), (70864, 70873), (71248, 71257), (71360, 71369),
      (71472, 71481), (71904, 71913), (72016, 72025), (72784, 72793), (73040, 73049), (73120, 73129),
      (92768, 92777), (92864, 92873), (93008, 93017), (120782, 120831), (123200, 123209), (123632, 123641),
      (125264, 125273), (130032, 130041)]"

definition in_ranges :: "nat \<Rightarrow> (nat \<times> nat) list \<Rightarrow> bool" where
  "in_ranges r tbl = list_ex (\<lambda>(lo, hi). lo \<le> r \<and> r \<le> hi) tbl"

text \<open>As in Go, the low code points are decided without the tables.\<close>

definition unicode_IsLetter :: "nat \<Rightarrow> bool" where
  "unicode_IsLetter r =
     (if r < 0x80 then (0x41 \<le> r \<and> r \<le> 0x5A) \<or> (0x61 \<le> r \<and> r \<le> 0x7A)
      else in_ranges r letter_ranges)"

definition unicode_IsDigit :: "nat \<Rightarrow> bool" where
  "unicode_IsDigit r =
     (if r < 0x80 then 0x30 \<le> r \<and> r \<le> 0x39 else in_ranges r digit_ranges)"

subsection \<open>\<^verbatim>\<open>regexp\<close>: replacing a quoted literal\<close>

text \<open>
  \<^verbatim>\<open>regexp.MustCompile(regexp.QuoteMeta(match)).ReplaceAllString(src, repl)\<close>.
  The pattern is the literal \<^verbatim>\<open>match\<close>; it has no capture group.  \<^verbatim>\<open>MustCompile\<close> panics
  when the parser refuses the pattern: at a byte that starts no valid UTF-8 encoding, or
  at the rune that takes the pattern beyond \<^verbatim>\<open>maxRunes\<close> (the limit of \<^verbatim>\<open>regexp/syntax\<close> in
  Go 1.20 and later), whichever comes first.  \<^verbatim>\<open>ReplaceAllString\<close> replaces the matches
  found from left to right, without overlap, by the expansion of \<^verbatim>\<open>repl\<close> as a template:
  there \<^verbatim>\<open>$$\<close> is a dollar sign, \<^verbatim>\<open>$name\<close> and \<^verbatim>\<open>${name}\<close> are the text of a submatch,
  empty when the pattern has no such group, and a dollar sign that starts none of these
  stands for itself.  A name is a longest run of letters, digits and underscores, read
  rune by rune.
\<close>

datatype panic = InvalidUTF8 string | ErrLarge string

definition maxRunes :: nat where
  "maxRunes = 33554432"

text \<open>
  The parser on the quoted literal \<open>m\<close>: every rune is decoded, then counted.  The second
  argument counts the bytes of the current rune still to be passed, the third the runes
  read so far.
\<close>

fun parse_from :: "string \<Rightarrow> nat \<Rightarrow> nat \<Rightarrow> string \<Rightarrow> panic option" where
  "parse_from m k n [] = None"
| "parse_from m (Suc k) n (c # cs) = parse_from m k n cs"
| "parse_from m 0 n (c # cs) =
     (if rune_width (c # cs) = 1 \<and> \<not> byte_in 0 0x7F c then Some (InvalidUTF8 m)
      else if maxRunes < n + 1 then Some (ErrLarge m)
      else parse_from m (rune_width (c # cs) - 1) (n + 1) cs)"

definition MustCompile_QuoteMeta :: "string \<Rightarrow> panic option" where
  "MustCompile_QuoteMeta m = parse_from m 0 0 m"

definition is_digit :: "char \<Rightarrow> bool" where
  "is_digit c = byte_in 0x30 0x39 c"

definition is_name_rune :: "nat \<Rightarrow> bool" where
  "is_name_rune r = (unicode_IsLetter r \<or> unicode_IsDigit r \<or> r = 0x5F)"

text \<open>
  The length in bytes of the longest run of name runes at the start of a text.  The
  first argument counts the bytes of the current rune still to be passed.
\<close>

fun name_len_from :: "nat \<Rightarrow> string \<Rightarrow> nat" where
  "name_len_from k [] = 0"
| "name_len_from (Suc k) (c # cs) = Suc (name_len_from k cs)"
| "name_len_from 0 (c # cs) =
     (if is_name_rune (rune_value (c # cs))
      then Suc (name_len_from (rune_width (c # cs) - 1) cs) else 0)"

text \<open>
  \<^verbatim>\<open>extract\<close>: the name that follows a dollar sign and the number of template bytes
  it takes, or \<open>None\<close> when the text is malformed.
\<close>

definition extract_name :: "string \<Rightarrow> (string \<times> nat) option" where
  "extract_name str =
     (case str of
        [] \<Rightarrow> None
      | c # cs \<Rightarrow>
          let brace = (c = CHR ''{'');
              body = (if brace then cs else str);
              nm = take (name_len_from 0 body) body
          in if nm = [] then None
             else if brace then
               (if length nm < length body \<and> body ! length nm = CHR ''}''
                then Some (nm, length nm + 2) else None)
             else Some (nm, length nm))"

text \<open>A purely numeric name without a leading zero is a submatch index.\<close>

fun parse_num :: "string \<Rightarrow> nat \<Rightarrow> nat option" where
  "parse_num [] num = Some num"
| "parse_num (c # cs) num =
     (if \<not> is_digit c \<or> 100000000 \<le> num then None
      else parse_num cs (num * 10 + (of_char c - 48)))"

definition name_index :: "string \<Rightarrow> nat option" where
  "name_index nm = (if take 1 nm = ''0'' \<and> 1 < length nm then None else parse_num nm 0)"

text \<open>
  With no capture group the match has the two positions of the whole match only, and
  the only group name is the empty one: index 0 gives the matched text, anything else
  nothing.
\<close>

definition submatch :: "string \<Rightarrow> string \<Rightarrow> string" where
  "submatch nm whole =
     (case name_index nm of
        Some num \<Rightarrow> if 2 * num + 1 < 2 then whole else []
      | None \<Rightarrow> [])"

text \<open>\<^verbatim>\<open>expand\<close>; the first argument counts the template bytes still to be skipped.\<close>

fun expand_from :: "nat \<Rightarrow> string \<Rightarrow> string \<Rightarrow> string" where
  "expand_from k [] whole = []"
| "expand_from (Suc k) (c # t) whole = expand_from k t whole"
| "expand_from 0 (c # t) whole =
     (if c \<noteq> CHR ''$'' then c # expand_from 0 t whole
      else if take 1 t = ''$'' then CHR ''$'' # expand_from 1 t whole
      else (case extract_name t of
              None \<Rightarrow> CHR ''$'' # expand_from 0 t whole
            | Some (nm, used) \<Rightarrow> submatch nm whole @ expand_from used t whole))"

definition Expand :: "string \<Rightarrow> string \<Rightarrow> string" where
  "Expand template whole = expand_from 0 template whole"

text \<open>
  The scan for a literal that is not empty: at a position where the literal starts, the
  replacement is written and the literal is passed; elsewhere the byte is copied.
\<close>

fun replace_from :: "nat \<Rightarrow> string \<Rightarrow> string \<Rightarrow> string \<Rightarrow> string" where
  "replace_from k lit r [] = []"
| "replace_from (Suc k) lit r (c # cs) = replace_from k lit r cs"
| "replace_from 0 lit r (c # cs) =
     (if take (length lit) (c # cs) = lit then r @ replace_from (length lit - 1) lit r cs
      else c # replace_from 0 lit r cs)"

text \<open>The empty literal matches before every rune and at the end of the text.\<close>

fun insert_from :: "nat \<Rightarrow> string \<Rightarrow> string \<Rightarrow> string" where
  "insert_from k r [] = []"
| "insert_from k r (c # cs) =
     (if (if k = 0 then rune_width (c # cs) else k) \<le> 1 then c # r @ insert_from 0 r cs
      else c # insert_from ((if k = 0 then rune_width (c # cs) else k) - 1) r cs)"

definition ReplaceAllString_QuoteMeta :: "string \<Rightarrow> string \<Rightarrow> string \<Rightarrow> panic + string" where
  "ReplaceAllString_QuoteMeta match src repl =
     (case MustCompile_QuoteMeta match of
        Some p \<Rightarrow> Inl p
      | None \<Rightarrow>
          if match = [] then Inr (Expand repl [] @ insert_from 0 (Expand repl []) src)
          else Inr (replace_from 0 match (Expand repl match) src))"

subsection \<open>Configuration and processor (\<^verbatim>\<open>config.go\<close>, \<^verbatim>\<open>processor.go\<close>)\<close>

record PatternConfig =
  Name :: string
  Regex :: string
  MaskedPrefix :: string

record Config =
  RedisAddr :: string
  RedisPassword :: string
  RedisDB :: int
  TokenTTL :: "64 word"
  FieldsToMask :: "string list"
  Patterns :: "PatternConfig list"

text \<open>
  A compiled pattern.  The processor uses the compiled expression through
  \<^verbatim>\<open>FindAllString(text, -1)\<close> only, so \<open>regex\<close> is that function: the matches in a text,
  in order of occurrence.
\<close>

record compiledPattern =
  name :: string
  regex :: "string \<Rightarrow> string list"
  maskedPrefix :: string

text \<open>
  Go errors.  \<open>RedisNil\<close> is \<^verbatim>\<open>redis.Nil\<close>, the reply for a missing key;
  \<open>Errorf msg e\<close> is \<^verbatim>\<open>fmt.Errorf(msg + "%w", e)\<close>.
\<close>

datatype go_error = RedisNil | TransportError string | Errorf string go_error

text \<open>
  The Redis client, over any state \<open>'r\<close> of connection and server: what a \<^verbatim>\<open>GET\<close> and a
  \<^verbatim>\<open>SET\<close> with expiry answer, and the state they leave.
\<close>

record 'r redisClient =
  client_Get :: "'r \<Rightarrow> string \<Rightarrow> (go_error + string) \<times> 'r"
  client_Set :: "'r \<Rightarrow> string \<Rightarrow> string \<Rightarrow> 64 word \<Rightarrow> go_error option \<times> 'r"

record 'r maskingProcessor =
  config :: Config
  redisClient :: "'r redisClient"
  compiledPatterns :: "compiledPattern list"

text \<open>
  What the processor acts on besides its arguments: the store behind the client, the
  commands sent to it so far (oldest first) and the entries written to the logger.
\<close>

datatype command = GET string | SET string string "64 word"

datatype field = ZapString string string | ZapError go_error

record 'r world =
  store :: 'r
  sent :: "command list"
  logged :: "(string \<times> field list) list"

definition redis_Get ::
  "'r maskingProcessor \<Rightarrow> 'r world \<Rightarrow> string \<Rightarrow> (go_error + string) \<times> 'r world" where
  "redis_Get mp w key =
     (case client_Get (redisClient mp) (store w) key of
        (res, s) \<Rightarrow> (res, w\<lparr>store := s, sent := sent w @ [GET key]\<rparr>))"

definition redis_Set ::
  "'r maskingProcessor \<Rightarrow> 'r world \<Rightarrow> string \<Rightarrow> string \<Rightarrow> 64 word
     \<Rightarrow> go_error option \<times> 'r world" where
  "redis_Set mp w key val ttl =
     (case client_Set (redisClient mp) (store w) key val ttl of
        (err, s) \<Rightarrow> (err, w\<lparr>store := s, sent := sent w @ [SET key val ttl]\<rparr>))"

definition logger_Error :: "'r world \<Rightarrow> string \<Rightarrow> field list \<Rightarrow> 'r world" where
  "logger_Error w msg fs = w\<lparr>logged := logged w @ [(msg, fs)]\<rparr>"

subsection \<open>\<^verbatim>\<open>generateMaskedValue\<close>\<close>

text \<open>The loop over the compiled patterns: the prefix of the first one named as the category.\<close>

fun findPrefix :: "compiledPattern list \<Rightarrow> string \<Rightarrow> string" where
  "findPrefix [] category = []"
| "findPrefix (pattern # rest) category =
     (if name pattern = category then maskedPrefix pattern else findPrefix rest category)"

text \<open>
  The digest is an array of 32 bytes, so the three bytes read for \<^verbatim>\<open>ipv4\<close> exist
  (\<open>length_Sum256\<close> below), and a byte is its own remainder by 256.
\<close>

definition generateMaskedValue :: "'r maskingProcessor \<Rightarrow> string \<Rightarrow> string \<Rightarrow> string" where
  "generateMaskedValue mp originalValue category =
     (let hash = Sum256 (bytes_of (originalValue @ category));
          hashStr = EncodeToString hash
      in if category = ''ipv4'' then
           ''10.'' @ fmt_d (unat (hash ! 0) mod 256) @ ''.'' @ fmt_d (unat (hash ! 1) mod 256)
             @ ''.'' @ fmt_d (unat (hash ! 2) mod 256)
         else if category = ''hostname'' then ''host-'' @ take 8 hashStr @ ''.masked.local''
         else
           let prefix = findPrefix (compiledPatterns mp) category;
               prefix = (if 10 < length category \<and> take 10 category = ''attribute_''
                         then drop 10 category @ ''-'' else prefix)
           in prefix @ take 12 hashStr)"

subsection \<open>\<^verbatim>\<open>getMaskedValue\<close>\<close>

text \<open>The expiry: the configured seconds as nanoseconds in 64 bits, none when not positive.\<close>

definition token_ttl :: "'r maskingProcessor \<Rightarrow> 64 word" where
  "token_ttl mp =
     (if 0 <s TokenTTL (config mp) then TokenTTL (config mp) * 1000000000 else 0)"

definition getMaskedValue ::
  "'r maskingProcessor \<Rightarrow> 'r world \<Rightarrow> string \<Rightarrow> string \<Rightarrow> (go_error + string) \<times> 'r world" where
  "getMaskedValue mp w originalValue category =
     (let redisKey = ''mask:'' @ category @ '':'' @ originalValue
      in case redis_Get mp w redisKey of
           (Inr cachedValue, w1) \<Rightarrow> (Inr cachedValue, w1)
         | (Inl err, w1) \<Rightarrow>
             if err \<noteq> RedisNil then (Inl (Errorf ''redis get error: '' err), w1)
             else
               let maskedValue = generateMaskedValue mp originalValue category;
                   ttl = token_ttl mp
               in case redis_Set mp w1 redisKey maskedValue ttl of
                    (err2, w2) \<Rightarrow>
                      let w3 = (case err2 of
                                  Some e \<Rightarrow> logger_Error w2
                                    ''Failed to store masked value in Redis'' [ZapError e]
                                | None \<Rightarrow> w2);
                          reverseKey = ''unmask:'' @ category @ '':'' @ maskedValue
                      in case redis_Set mp w3 reverseKey originalValue ttl of
                           (_, w4) \<Rightarrow> (Inr maskedValue, w4))"

subsection \<open>\<^verbatim>\<open>maskPatternsInString\<close>\<close>

text \<open>The inner loop: the matches of one pattern, found before the loop starts.\<close>

fun maskMatches ::
  "'r maskingProcessor \<Rightarrow> compiledPattern \<Rightarrow> string list \<Rightarrow> string \<Rightarrow> 'r world
     \<Rightarrow> panic + (string \<times> 'r world)" where
  "maskMatches mp pattern [] result w = Inr (result, w)"
| "maskMatches mp pattern (match # matches) result w =
     (case getMaskedValue mp w match (name pattern) of
        (Inl err, w1) \<Rightarrow>
          maskMatches mp pattern matches result
            (logger_Error w1 ''Failed to mask value''
               [ZapString ''pattern'' (name pattern), ZapString ''value'' match, ZapError err])
      | (Inr maskedValue, w1) \<Rightarrow>
          (case ReplaceAllString_QuoteMeta match result maskedValue of
             Inl p \<Rightarrow> Inl p
           | Inr result1 \<Rightarrow> maskMatches mp pattern matches result1 w1))"

text \<open>The outer loop: the patterns in order, each on the text the earlier ones left.\<close>

fun maskPatterns ::
  "'r maskingProcessor \<Rightarrow> compiledPattern list \<Rightarrow> string \<Rightarrow> 'r world
     \<Rightarrow> panic + (string \<times> 'r world)" where
  "maskPatterns mp [] result w = Inr (result, w)"
| "maskPatterns mp (pattern # rest) result w =
     (case maskMatches mp pattern (regex pattern result) result w of
        Inl p \<Rightarrow> Inl p
      | Inr (result1, w1) \<Rightarrow> maskPatterns mp rest result1 w1)"

definition maskPatternsInString ::
  "'r maskingProcessor \<Rightarrow> 'r world \<Rightarrow> string \<Rightarrow> panic + (string \<times> 'r world)" where
  "maskPatternsInString mp w txt = maskPatterns mp (compiledPatterns mp) txt w"

subsection \<open>\<^verbatim>\<open>maskLogRecord\<close> and \<^verbatim>\<open>processLogs\<close>\<close>

text \<open>
  A \<^verbatim>\<open>pcommon.Value\<close>: a string, or a value of another type, kept as its type and the text
  \<^verbatim>\<open>AsString\<close> gives for it; the processor looks no further into it.
\<close>

datatype ValueType =
  ValueTypeEmpty | ValueTypeInt | ValueTypeDouble | ValueTypeBool
  | ValueTypeMap | ValueTypeSlice | ValueTypeBytes

datatype Value = ValueStr string | ValueOther ValueType string

fun AsString :: "Value \<Rightarrow> string" where
  "AsString (ValueStr s) = s"
| "AsString (ValueOther t s) = s"

text \<open>A log record: its attributes in order, its body; the other fields are not touched.\<close>

record LogRecord =
  Attributes :: "(string \<times> Value) list"
  Body :: Value

type_synonym ScopeLogs = "LogRecord list"
type_synonym ResourceLogs = "ScopeLogs list"
type_synonym Logs = "ResourceLogs list"

text \<open>The loop over \<^verbatim>\<open>FieldsToMask\<close> for the attribute \<open>k\<close>, whose value is \<open>v\<close>.\<close>

fun maskFields ::
  "'r maskingProcessor \<Rightarrow> string \<Rightarrow> string list \<Rightarrow> Value \<Rightarrow> 'r world \<Rightarrow> Value \<times> 'r world" where
  "maskFields mp k [] v w = (v, w)"
| "maskFields mp k (fieldToMask # rest) v w =
     (if k = fieldToMask then
        (case getMaskedValue mp w (AsString v) (''attribute_'' @ k) of
           (Inl err, w1) \<Rightarrow>
             maskFields mp k rest v
               (logger_Error w1 ''Failed to mask attribute'' [ZapString ''key'' k, ZapError err])
         | (Inr maskedValue, w1) \<Rightarrow> maskFields mp k rest (ValueStr maskedValue) w1)
      else maskFields mp k rest v w)"

text \<open>\<^verbatim>\<open>Attributes().Range\<close> with a callback that always returns true.\<close>

fun maskAttributes ::
  "'r maskingProcessor \<Rightarrow> (string \<times> Value) list \<Rightarrow> 'r world
     \<Rightarrow> (string \<times> Value) list \<times> 'r world" where
  "maskAttributes mp [] w = ([], w)"
| "maskAttributes mp ((k, v) # kvs) w =
     (case maskFields mp k (FieldsToMask (config mp)) v w of
        (v1, w1) \<Rightarrow>
          (case maskAttributes mp kvs w1 of
             (kvs1, w2) \<Rightarrow> ((k, v1) # kvs1, w2)))"

definition maskLogRecord ::
  "'r maskingProcessor \<Rightarrow> 'r world \<Rightarrow> LogRecord
     \<Rightarrow> panic + (go_error option \<times> LogRecord \<times> 'r world)" where
  "maskLogRecord mp w lr =
     (case maskAttributes mp (Attributes lr) w of
        (attrs, w1) \<Rightarrow>
          (case Body lr of
             ValueStr originalBody \<Rightarrow>
               (case maskPatternsInString mp w1 originalBody of
                  Inl p \<Rightarrow> Inl p
                | Inr (maskedBody, w2) \<Rightarrow>
                    if maskedBody \<noteq> originalBody
                    then Inr (None, lr\<lparr>Attributes := attrs, Body := ValueStr maskedBody\<rparr>, w2)
                    else Inr (None, lr\<lparr>Attributes := attrs\<rparr>, w2))
           | ValueOther t s \<Rightarrow> Inr (None, lr\<lparr>Attributes := attrs\<rparr>, w1)))"

text \<open>A loop over a slice by index, each element updated in place.\<close>

fun forEach ::
  "('a \<Rightarrow> 's \<Rightarrow> panic + ('a \<times> 's)) \<Rightarrow> 'a list \<Rightarrow> 's \<Rightarrow> panic + ('a list \<times> 's)" where
  "forEach f [] w = Inr ([], w)"
| "forEach f (x # xs) w =
     (case f x w of
        Inl p \<Rightarrow> Inl p
      | Inr (x1, w1) \<Rightarrow>
          (case forEach f xs w1 of
             Inl p \<Rightarrow> Inl p
           | Inr (xs1, w2) \<Rightarrow> Inr (x1 # xs1, w2)))"

text \<open>The body of the innermost loop of \<^verbatim>\<open>processLogs\<close>.\<close>

definition processRecord ::
  "'r maskingProcessor \<Rightarrow> LogRecord \<Rightarrow> 'r world \<Rightarrow> panic + (LogRecord \<times> 'r world)" where
  "processRecord mp lr w =
     (case maskLogRecord mp w lr of
        Inl p \<Rightarrow> Inl p
      | Inr (Some err, lr1, w1) \<Rightarrow>
          Inr (lr1, logger_Error w1 ''Failed to mask log record'' [ZapError err])
      | Inr (None, lr1, w1) \<Rightarrow> Inr (lr1, w1))"

definition processLogs ::
  "'r maskingProcessor \<Rightarrow> 'r world \<Rightarrow> Logs \<Rightarrow> panic + (Logs \<times> go_error option \<times> 'r world)" where
  "processLogs mp w ld =
     (case forEach (forEach (forEach (processRecord mp))) ld w of
        Inl p \<Rightarrow> Inl p
      | Inr (ld1, w1) \<Rightarrow> Inr (ld1, None, w1))"

subsection \<open>Examples: patterns, a store, processors\<close>

text \<open>
  The matches of a pattern that is a plain literal, not empty, without metacharacters:
  its occurrences from left to right, without overlap.
\<close>

fun find_from :: "nat \<Rightarrow> string \<Rightarrow> string \<Rightarrow> string list" where
  "find_from k lit [] = []"
| "find_from (Suc k) lit (c # cs) = find_from k lit cs"
| "find_from 0 lit (c # cs) =
     (if take (length lit) (c # cs) = lit then lit # find_from (length lit - 1) lit cs
      else find_from 0 lit cs)"

definition literal_regex :: "string \<Rightarrow> string \<Rightarrow> string list" where
  "literal_regex lit txt = find_from 0 lit txt"

text \<open>
  A Redis server held in memory: its entries, newest first, and whether it refuses
  writes.  Expiry is left out.
\<close>

record server =
  entries :: "(string \<times> string) list"
  readonly :: bool

definition server_Get :: "server \<Rightarrow> string \<Rightarrow> (go_error + string) \<times> server" where
  "server_Get s key =
     (case map_of (entries s) key of
        None \<Rightarrow> (Inl RedisNil, s)
      | Some v \<Rightarrow> (Inr v, s))"

definition server_Set ::
  "server \<Rightarrow> string \<Rightarrow> string \<Rightarrow> 64 word \<Rightarrow> go_error option \<times> server" where
  "server_Set s key val ttl =
     (if readonly s then (Some (TransportError ''READONLY''), s)
      else (None, s\<lparr>entries := (key, val) # entries s\<rparr>))"

text \<open>
  Three clients: one that reaches the server; one whose reads of the given keys time
  out; one whose connection is refused, so that every command fails.
\<close>

definition server_client :: "server redisClient" where
  "server_client = \<lparr>client_Get = server_Get, client_Set = server_Set\<rparr>"

definition timeout_client :: "string list \<Rightarrow> server redisClient" where
  "timeout_client bad =
     \<lparr>client_Get = (\<lambda>s key. if key \<in> set bad then (Inl (TransportError ''i/o timeout''), s)
                             else server_Get s key),
      client_Set = server_Set\<rparr>"

definition refused_client :: "server redisClient" where
  "refused_client =
     \<lparr>client_Get = (\<lambda>s key. (Inl (TransportError ''dial tcp: connection refused''), s)),
      client_Set = (\<lambda>s key val ttl. (Some (TransportError ''dial tcp: connection refused''), s))\<rparr>"

definition server_up :: server where
  "server_up = \<lparr>entries = [], readonly = False\<rparr>"

definition server_readonly :: server where
  "server_readonly = \<lparr>entries = [], readonly = True\<rparr>"

definition world_of :: "'r \<Rightarrow> 'r world" where
  "world_of s = \<lparr>store = s, sent = [], logged = []\<rparr>"

definition example_config :: Config where
  "example_config =
     \<lparr>RedisAddr = ''localhost:6379'', RedisPassword = [], RedisDB = 0, TokenTTL = 0,
      FieldsToMask = [''username'', ''session''],
      Patterns = [\<lparr>Name = ''ipv4'', Regex = ''1[.]2[.]3[.]4'', MaskedPrefix = ''IP-''\<rparr>]\<rparr>"

definition example_mp :: "server maskingProcessor" where
  "example_mp =
     \<lparr>config = example_config, redisClient = server_client,
      compiledPatterns =
        [\<lparr>name = ''ipv4'', regex = literal_regex ''1.2.3.4'', maskedPrefix = ''IP-''\<rparr>]\<rparr>"

definition timeout_mp :: "server maskingProcessor" where
  "timeout_mp = example_mp\<lparr>redisClient := timeout_client [''mask:attribute_session:abc'']\<rparr>"

definition refused_mp :: "server maskingProcessor" where
  "refused_mp = example_mp\<lparr>redisClient := refused_client\<rparr>"

text \<open>A batch of one record, and one whose body is not a string.\<close>

definition example_record :: LogRecord where
  "example_record =
     \<lparr>Attributes = [(''username'', ValueStr ''alice''), (''session'', ValueStr ''abc'')],
      Body = ValueStr ''from 1.2.3.4''\<rparr>"

definition example_batch :: Logs where
  "example_batch = [[[example_record]]]"

definition int_body_record :: LogRecord where
  "int_body_record =
     \<lparr>Attributes = [(''username'', ValueStr ''alice'')], Body = ValueOther ValueTypeInt ''1234''\<rparr>"

text \<open>
  The matches of the pattern \<^verbatim>\<open>[^ ]+\<close>: the longest runs of bytes other than the space.
  A byte that starts no valid encoding is read as U+FFFD, which the class accepts.
\<close>

fun nonspace_runs :: "string \<Rightarrow> string \<Rightarrow> string list" where
  "nonspace_runs run [] = (if run = [] then [] else [run])"
| "nonspace_runs run (c # cs) =
     (if c = CHR '' '' then (if run = [] then nonspace_runs [] cs else run # nonspace_runs [] cs)
      else nonspace_runs (run @ [c]) cs)"

definition nonspace_regex :: "string \<Rightarrow> string list" where
  "nonspace_regex src = nonspace_runs [] src"

text \<open>
  A processor with that pattern, whose read for the attribute \<^verbatim>\<open>session\<close> times out, and
  a record whose body is the word \<^verbatim>\<open>caf\<close> followed by the byte 0xE9, an e with acute
  accent in Latin-1: not valid UTF-8.
\<close>

definition latin1_mp :: "server maskingProcessor" where
  "latin1_mp =
     \<lparr>config =
        \<lparr>RedisAddr = ''localhost:6379'', RedisPassword = [], RedisDB = 0, TokenTTL = 0,
         FieldsToMask = [''session''],
         Patterns = [\<lparr>Name = ''word'', Regex = ''[^ ]+'', MaskedPrefix = ''W-''\<rparr>]\<rparr>,
      redisClient = timeout_client [''mask:attribute_session:abc''],
      compiledPatterns =
        [\<lparr>name = ''word'', regex = nonspace_regex, maskedPrefix = ''W-''\<rparr>]\<rparr>"

definition latin1_body :: string where
  "latin1_body = ''caf'' @ [CHR 0xE9]"

definition latin1_record :: LogRecord where
  "latin1_record =
     \<lparr>Attributes = [(''session'', ValueStr ''abc'')], Body = ValueStr latin1_body\<rparr>"

text \<open>The world after the attributes of that record have been gone through.\<close>

definition latin1_world_attrs :: "server world" where
  "latin1_world_attrs =
     \<lparr>store = server_up,
      sent = [GET ''mask:attribute_session:abc''],
      logged =
        [(''Failed to mask attribute'',
          [ZapString ''key'' ''session'',
           ZapError (Errorf ''redis get error: '' (TransportError ''i/o timeout''))])]\<rparr>"

text \<open>A processor whose one pattern has a dollar sign as its masked prefix.\<close>

definition dollar_config :: Config where
  "dollar_config =
     \<lparr>RedisAddr = ''localhost:6379'', RedisPassword = [], RedisDB = 0, TokenTTL = 60,
      FieldsToMask = [],
      Patterns = [\<lparr>Name = ''amount'', Regex = ''42[.]50'', MaskedPrefix = ''$''\<rparr>]\<rparr>"

definition dollar_mp :: "server maskingProcessor" where
  "dollar_mp =
     \<lparr>config = dollar_config, redisClient = server_client,
      compiledPatterns =
        [\<lparr>name = ''amount'', regex = literal_regex ''42.50'', maskedPrefix = ''$''\<rparr>]\<rparr>"

text \<open>
  The reading of the specification's sentence on IPv4 categories that takes all four
  octets from the digest: the first four digest bytes as a dotted quad.
\<close>

definition four_digest_bytes_quad :: "byte list \<Rightarrow> string" where
  "four_digest_bytes_quad hash =
     fmt_d (unat (hash ! 0)) @ ''.'' @ fmt_d (unat (hash ! 1)) @ ''.''
       @ fmt_d (unat (hash ! 2)) @ ''.'' @ fmt_d (unat (hash ! 3))"

subsection \<open>Predicates of the statements\<close>

text \<open>Every read fails with a transport error, whatever the state of the store.\<close>

definition reads_fail :: "'r maskingProcessor \<Rightarrow> bool" where
  "reads_fail mp =
     (\<forall>s key. \<exists>e s'. client_Get (redisClient mp) s key = (Inl e, s') \<and> e \<noteq> RedisNil)"

text \<open>The read for the attribute \<open>k\<close> with value \<open>v\<close> fails, whatever the state of the store.\<close>

definition read_fails_for :: "'r maskingProcessor \<Rightarrow> string \<Rightarrow> Value \<Rightarrow> bool" where
  "read_fails_for mp k v =
     (\<forall>s. \<exists>e s'. client_Get (redisClient mp) s
                  (''mask:'' @ (''attribute_'' @ k) @ '':'' @ AsString v) = (Inl e, s')
               \<and> e \<noteq> RedisNil)"

text \<open>An attribute keeps its key, and its value when the read for it fails.\<close>

definition attr_kept ::
  "'r maskingProcessor \<Rightarrow> string \<times> Value \<Rightarrow> string \<times> Value \<Rightarrow> bool" where
  "attr_kept mp kv kv' =
     (fst kv' = fst kv \<and> (read_fails_for mp (fst kv) (snd kv) \<longrightarrow> snd kv' = snd kv))"

definition record_kept :: "'r maskingProcessor \<Rightarrow> LogRecord \<Rightarrow> LogRecord \<Rightarrow> bool" where
  "record_kept mp lr lr' = list_all2 (attr_kept mp) (Attributes lr) (Attributes lr')"

text \<open>Every match of every compiled pattern, quoted, is a pattern the parser accepts.\<close>

definition matches_valid :: "'r maskingProcessor \<Rightarrow> bool" where
  "matches_valid mp =
     (\<forall>p \<in> set (compiledPatterns mp). \<forall>t. \<forall>m \<in> set (regex p t).
        MustCompile_QuoteMeta m = None)"

text \<open>The example batch after \<^verbatim>\<open>processLogs\<close> with the client that times out on one key.\<close>

definition example_batch_masked :: Logs where
  "example_batch_masked =
     [[[\<lparr>Attributes = [(''username'', ValueStr ''username-553c8493a142''),
                       (''session'', ValueStr ''abc'')],
         Body = ValueStr ''from 10.217.115.103''\<rparr>]]]"

definition example_world_after :: "server world" where
  "example_world_after =
     \<lparr>store =
        \<lparr>entries =
           [(''unmask:ipv4:10.217.115.103'', ''1.2.3.4''),
            (''mask:ipv4:1.2.3.4'', ''10.217.115.103''),
            (''unmask:attribute_username:username-553c8493a142'', ''alice''),
            (''mask:attribute_username:alice'', ''username-553c8493a142'')],
         readonly = False\<rparr>,
      sent =
        [GET ''mask:attribute_username:alice'',
         SET ''mask:attribute_username:alice'' ''username-553c8493a142'' 0,
         SET ''unmask:attribute_username:username-553c8493a142'' ''alice'' 0,
         GET ''mask:attribute_session:abc'',
         GET ''mask:ipv4:1.2.3.4'',
         SET ''mask:ipv4:1.2.3.4'' ''10.217.115.103'' 0,
         SET ''unmask:ipv4:10.217.115.103'' ''1.2.3.4'' 0],
      logged =
        [(''Failed to mask attribute'',
          [ZapString ''key'' ''session'',
           ZapError (Errorf ''redis get error: '' (TransportError ''i/o timeout''))])]\<rparr>"

text \<open>The store after the one match of the dollar-sign example has been masked.\<close>

definition dollar_world_after :: "server world" where
  "dollar_world_after =
     \<lparr>store =
        \<lparr>entries = [(''unmask:amount:$37de40af1005'', ''42.50''),
                    (''mask:amount:42.50'', ''$37de40af1005'')],
         readonly = False\<rparr>,
      sent =
        [GET ''mask:amount:42.50'',
         SET ''mask:amount:42.50'' ''$37de40af1005'' 60000000000,
         SET ''unmask:amount:$37de40af1005'' ''42.50'' 60000000000],
      logged = []\<rparr>"

section \<open>Properties\<close>

subsection \<open>The library models\<close>

lemma length_sha_shuffle: "length (sha_shuffle t1 t2 st) = length st"
  by (induction t1 t2 st rule: sha_shuffle.induct) simp_all

lemma length_sha_round: "length (sha_round k w st) = length st"
  by (induction k w st rule: sha_round.induct) (simp_all add: length_sha_shuffle del: sha_shuffle.simps)

lemma length_sha_rounds: "length (sha_rounds ks ws st) = length st"
  by (induction ks ws st rule: sha_rounds.induct) (simp_all add: length_sha_round del: sha_round.simps)

lemma length_sha_compress: "length (sha_compress hs blk) = length hs"
  by (simp add: sha_compress_def length_sha_rounds)

lemma length_foldl_compress: "length (foldl sha_compress hs blks) = length hs"
  by (induction blks arbitrary: hs) (simp_all add: length_sha_compress)

lemma length_concat_u32_bytes: "length (concat (map u32_bytes ws)) = 4 * length ws"
  by (induction ws) (simp_all add: u32_bytes_def)

lemma length_Sum256: "length (Sum256 m) = 32"
  by (simp add: Sum256_def length_concat_u32_bytes length_foldl_compress sha_H0_def)

lemma length_EncodeToString: "length (EncodeToString bs) = 2 * length bs"
  by (induction bs) (simp_all add: EncodeToString_def hex_byte_def)


lemma unat_hi_nibble: "unat (drop_bit 4 (b :: byte)) < 16"
proof -
  have "unat b < 256" using unsigned_less [of b, where 'a = nat] by simp
  then have "unat b div 16 < 16" by simp
  moreover have "unat (drop_bit 4 b) = unat b div 2 ^ 4"
    unfolding unat_drop_bit_eq by (rule drop_bit_eq_div)
  ultimately show ?thesis by simp
qed

lemma unat_lo_nibble: "unat ((b :: byte) AND 0x0f) < 16"
proof -
  have "b AND 15 \<le> 15"
    by (rule word_and_le1)
  then have "unat (b AND 15) \<le> unat (15 :: byte)"
    by (simp only: word_le_nat_alt)
  then show ?thesis by simp
qed

lemma hexdigit_in: "n < 16 \<Longrightarrow> hexdigit n \<in> set ''0123456789abcdef''"
  unfolding hexdigit_def by (rule nth_mem) simp

lemma set_hex_byte: "set (hex_byte b) \<subseteq> set ''0123456789abcdef''"
  using hexdigit_in [OF unat_hi_nibble [of b]] hexdigit_in [OF unat_lo_nibble [of b]]
  by (simp add: hex_byte_def)

lemma set_EncodeToString: "set (EncodeToString bs) \<subseteq> set ''0123456789abcdef''"
  using set_hex_byte by (induction bs) (auto simp: EncodeToString_def)

lemma findPrefix_find:
  "findPrefix ps c = (case find (\<lambda>p. name p = c) ps of Some p \<Rightarrow> maskedPrefix p | None \<Rightarrow> [])"
  by (induction ps) simp_all

lemma find_distinct_name:
  "distinct (map name ps) \<Longrightarrow> p \<in> set ps \<Longrightarrow> name p = c
   \<Longrightarrow> find (\<lambda>q. name q = c) ps = Some p"
  by (induction ps) (auto simp: image_iff)

lemma findPrefix_map_of:
  "findPrefix ps c =
     (case map_of (map (\<lambda>p. (name p, maskedPrefix p)) ps) c of None \<Rightarrow> [] | Some x \<Rightarrow> x)"
  by (induction ps) simp_all

lemma findPrefix_cong:
  "map (\<lambda>p. (name p, maskedPrefix p)) ps = map (\<lambda>p. (name p, maskedPrefix p)) qs
   \<Longrightarrow> findPrefix ps c = findPrefix qs c"
  by (simp only: findPrefix_map_of)

lemma unat_byte_mod: "unat (b :: byte) mod 256 = unat b"
  using unsigned_less [of b, where 'a = nat] by simp

lemma hex12:
  "length (take 12 (EncodeToString (Sum256 m))) = 12
   \<and> set (take 12 (EncodeToString (Sum256 m))) \<subseteq> set ''0123456789abcdef''"
  using set_take_subset [of 12 "EncodeToString (Sum256 m)"] set_EncodeToString [of "Sum256 m"]
  by (simp add: length_EncodeToString length_Sum256)

text \<open>Digests of the inputs of the examples.\<close>

lemma digest_ip: "Sum256 (bytes_of ''1.2.3.4ipv4'') =
  [217, 115, 103, 189, 202, 176, 76, 183, 199, 136, 202, 140, 27, 174, 15, 126,
   194, 108, 89, 219, 157, 119, 86, 199, 100, 6, 52, 161, 172, 94, 104, 217]"
  by code_simp

lemma digest_alice: "Sum256 (bytes_of ''aliceattribute_username'') =
  [85, 60, 132, 147, 161, 66, 41, 18, 140, 230, 177, 217, 113, 30, 238, 107,
   100, 14, 192, 254, 14, 153, 30, 169, 26, 205, 86, 254, 12, 58, 72, 97]"
  by code_simp

lemma digest_amount: "Sum256 (bytes_of ''42.50amount'') =
  [55, 222, 64, 175, 16, 5, 27, 123, 234, 135, 247, 166, 132, 51, 24, 27,
   3, 221, 120, 70, 68, 101, 199, 230, 47, 50, 47, 104, 108, 29, 41, 148]"
  by code_simp

text \<open>Masked values of the examples.\<close>

lemma gen_ip: "generateMaskedValue mp ''1.2.3.4'' ''ipv4'' = ''10.217.115.103''"
  by (simp add: generateMaskedValue_def digest_ip fmt_d.simps digit_char_def)

lemma gen_alice:
  "generateMaskedValue mp ''alice'' ''attribute_username'' = ''username-553c8493a142''"
  by (simp add: generateMaskedValue_def digest_alice EncodeToString_def hex_byte_def hexdigit_def)

lemma gen_amount: "generateMaskedValue dollar_mp ''42.50'' ''amount'' = ''$37de40af1005''"
  by (simp add: generateMaskedValue_def digest_amount EncodeToString_def hex_byte_def
        hexdigit_def dollar_mp_def)

subsection \<open>The three outcomes of the read in \<^verbatim>\<open>getMaskedValue\<close>\<close>

lemma getMaskedValue_on_error:
  assumes "client_Get (redisClient mp) (store w) (''mask:'' @ category @ '':'' @ originalValue) = (Inl e, s)"
    and "e \<noteq> RedisNil"
  shows "getMaskedValue mp w originalValue category =
     (Inl (Errorf ''redis get error: '' e),
      w\<lparr>store := s, sent := sent w @ [GET (''mask:'' @ category @ '':'' @ originalValue)]\<rparr>)"
  using assms by (simp add: getMaskedValue_def redis_Get_def)

lemma getMaskedValue_on_hit:
  assumes "client_Get (redisClient mp) (store w) (''mask:'' @ category @ '':'' @ originalValue) = (Inr cached, s)"
  shows "getMaskedValue mp w originalValue category =
     (Inr cached,
      w\<lparr>store := s, sent := sent w @ [GET (''mask:'' @ category @ '':'' @ originalValue)]\<rparr>)"
  using assms by (simp add: getMaskedValue_def redis_Get_def)

lemma getMaskedValue_on_miss:
  assumes "client_Get (redisClient mp) (store w) (''mask:'' @ category @ '':'' @ originalValue) = (Inl RedisNil, s)"
  shows "fst (getMaskedValue mp w originalValue category) = Inr (generateMaskedValue mp originalValue category)"
    and "sent (snd (getMaskedValue mp w originalValue category)) =
       sent w @ [GET (''mask:'' @ category @ '':'' @ originalValue),
                 SET (''mask:'' @ category @ '':'' @ originalValue)
                     (generateMaskedValue mp originalValue category) (token_ttl mp),
                 SET (''unmask:'' @ category @ '':'' @ generateMaskedValue mp originalValue category)
                     originalValue (token_ttl mp)]"
  using assms by (simp_all add: getMaskedValue_def redis_Get_def redis_Set_def Let_def logger_Error_def
      split: prod.splits option.splits)

lemma session_get:
  "getMaskedValue timeout_mp (world_of server_up) ''abc'' ''attribute_session''
     = (Inl (Errorf ''redis get error: '' (TransportError ''i/o timeout'')),
        \<lparr>store = server_up, sent = [GET ''mask:attribute_session:abc''], logged = []\<rparr>)"
  by (simp add: getMaskedValue_def redis_Get_def timeout_mp_def timeout_client_def world_of_def)

subsection \<open>The synthesizer\<close>

text \<open>
  C3.  \<^verbatim>\<open>generateMaskedValue\<close> is a function of the original value, the category and the
  names and prefixes of the compiled patterns: it reads no store, and two processors
  that agree on those names and prefixes, whatever their configuration, client and
  compiled expressions, give the same masked value.  So two calls with the same value
  and category yield the same output.
\<close>

theorem generateMaskedValue_deterministic:
  "map (\<lambda>p. (name p, maskedPrefix p)) (compiledPatterns mp)
     = map (\<lambda>p. (name p, maskedPrefix p)) (compiledPatterns mp')
   \<Longrightarrow> generateMaskedValue mp originalValue category
       = generateMaskedValue mp' originalValue category"
  by (simp add: generateMaskedValue_def Let_def
        findPrefix_cong [of "compiledPatterns mp" "compiledPatterns mp'"])

theorem generateMaskedValue_deterministic_witness:
  "map (\<lambda>p. (name p, maskedPrefix p)) (compiledPatterns example_mp)
     = map (\<lambda>p. (name p, maskedPrefix p))
         (compiledPatterns (dollar_mp\<lparr>compiledPatterns :=
            [\<lparr>name = ''ipv4'', regex = (\<lambda>t. []), maskedPrefix = ''IP-''\<rparr>]\<rparr>))
   \<and> generateMaskedValue example_mp ''tok_4242'' ''ipv4''
       = generateMaskedValue (dollar_mp\<lparr>compiledPatterns :=
            [\<lparr>name = ''ipv4'', regex = (\<lambda>t. []), maskedPrefix = ''IP-''\<rparr>]\<rparr>)
           ''tok_4242'' ''ipv4''"
  using generateMaskedValue_deterministic [of example_mp
     "dollar_mp\<lparr>compiledPatterns :=
        [\<lparr>name = ''ipv4'', regex = (\<lambda>t. []), maskedPrefix = ''IP-''\<rparr>]\<rparr>"
     "''tok_4242''" "''ipv4''"]
  by (simp add: example_mp_def)

text \<open>
  C4, as amended.  For the category \<^verbatim>\<open>ipv4\<close> the masked value is a dotted quad whose first
  octet is the fixed 10 and whose other three octets are the first three bytes of the
  digest of the original value followed by the category, in decimal.
\<close>

theorem generateMaskedValue_ipv4:
  "generateMaskedValue mp originalValue ''ipv4'' =
     ''10.'' @ fmt_d (unat (Sum256 (bytes_of (originalValue @ ''ipv4'')) ! 0))
       @ ''.'' @ fmt_d (unat (Sum256 (bytes_of (originalValue @ ''ipv4'')) ! 1))
       @ ''.'' @ fmt_d (unat (Sum256 (bytes_of (originalValue @ ''ipv4'')) ! 2))
   \<and> 2 < length (Sum256 (bytes_of (originalValue @ ''ipv4'')))"
  by (simp add: generateMaskedValue_def Let_def unat_byte_mod length_Sum256)

theorem generateMaskedValue_ipv4_witness:
  "generateMaskedValue example_mp ''1.2.3.4'' ''ipv4'' = ''10.217.115.103''"
  using generateMaskedValue_ipv4 [of example_mp "''1.2.3.4''"]
  by (simp add: digest_ip fmt_d.simps digit_char_def)

text \<open>
  C4 as stated fails: for the original value \<^verbatim>\<open>1.2.3.4\<close> the masked value is
  \<^verbatim>\<open>10.217.115.103\<close>.  Four digest bytes as a dotted quad would be \<^verbatim>\<open>217.115.103.189\<close>,
  and the first octet, 10, is none of the 32 bytes of the digest.
\<close>

theorem ipv4_four_digest_bytes_counterexample:
  "generateMaskedValue example_mp ''1.2.3.4'' ''ipv4'' = ''10.217.115.103''
   \<and> four_digest_bytes_quad (Sum256 (bytes_of (''1.2.3.4'' @ ''ipv4''))) = ''217.115.103.189''
   \<and> 10 \<notin> set (Sum256 (bytes_of (''1.2.3.4'' @ ''ipv4'')))"
  by (simp add: generateMaskedValue_def four_digest_bytes_quad_def digest_ip fmt_d.simps
        digit_char_def)

text \<open>
  C5.  For a field name \<open>f\<close> that is not empty, the masked value for the category
  \<^verbatim>\<open>attribute_\<close> followed by \<open>f\<close> is \<open>f\<close>, a hyphen and the first 12 characters of the
  hexadecimal digest of the original value followed by the category; these are 12
  lower-case hexadecimal digits.
\<close>

theorem generateMaskedValue_attribute:
  "f \<noteq> [] \<Longrightarrow>
   generateMaskedValue mp originalValue (''attribute_'' @ f) =
     f @ ''-'' @ take 12 (EncodeToString (Sum256 (bytes_of (originalValue @ ''attribute_'' @ f))))
   \<and> length (take 12 (EncodeToString (Sum256 (bytes_of (originalValue @ ''attribute_'' @ f))))) = 12
   \<and> set (take 12 (EncodeToString (Sum256 (bytes_of (originalValue @ ''attribute_'' @ f)))))
       \<subseteq> set ''0123456789abcdef''"
  using hex12 [of "bytes_of (originalValue @ ''attribute_'' @ f)"]
  by (simp add: generateMaskedValue_def Let_def)

theorem generateMaskedValue_attribute_witness:
  "''username'' \<noteq> []
   \<and> generateMaskedValue example_mp ''alice'' ''attribute_username'' = ''username-553c8493a142''"
  using generateMaskedValue_attribute [of "''username''" example_mp "''alice''"]
  by (simp add: digest_alice EncodeToString_def hex_byte_def hexdigit_def)

text \<open>
  C6.  For a category that is not \<^verbatim>\<open>ipv4\<close>, not \<^verbatim>\<open>hostname\<close> and does not begin with
  \<^verbatim>\<open>attribute_\<close>, the masked value is the prefix of the first compiled pattern named as
  the category, or the empty prefix when there is none, followed by the first 12
  characters of the hexadecimal digest, which are 12 hexadecimal digits.  When the
  pattern names are distinct, any pattern named as the category is that first one.
  The function is total: no error is raised.
\<close>

theorem generateMaskedValue_pattern_prefix:
  "category \<noteq> ''ipv4'' \<Longrightarrow> category \<noteq> ''hostname'' \<Longrightarrow> take 10 category \<noteq> ''attribute_'' \<Longrightarrow>
   generateMaskedValue mp originalValue category =
     (case find (\<lambda>p. name p = category) (compiledPatterns mp) of
        Some p \<Rightarrow> maskedPrefix p
      | None \<Rightarrow> [])
     @ take 12 (EncodeToString (Sum256 (bytes_of (originalValue @ category))))
   \<and> length (take 12 (EncodeToString (Sum256 (bytes_of (originalValue @ category))))) = 12
   \<and> set (take 12 (EncodeToString (Sum256 (bytes_of (originalValue @ category)))))
       \<subseteq> set ''0123456789abcdef''
   \<and> (\<forall>p \<in> set (compiledPatterns mp).
         distinct (map name (compiledPatterns mp)) \<longrightarrow> name p = category \<longrightarrow>
         generateMaskedValue mp originalValue category =
           maskedPrefix p
           @ take 12 (EncodeToString (Sum256 (bytes_of (originalValue @ category)))))"
  using hex12 [of "bytes_of (originalValue @ category)"]
  by (simp add: generateMaskedValue_def Let_def findPrefix_find find_distinct_name)

theorem generateMaskedValue_pattern_prefix_witness:
  "''amount'' \<noteq> ''ipv4'' \<and> ''amount'' \<noteq> ''hostname'' \<and> take 10 ''amount'' \<noteq> ''attribute_''
   \<and> generateMaskedValue dollar_mp ''42.50'' ''amount'' = ''$37de40af1005''
   \<and> generateMaskedValue example_mp ''42.50'' ''amount'' = ''37de40af1005''
   \<and> hd (compiledPatterns dollar_mp) \<in> set (compiledPatterns dollar_mp)
   \<and> distinct (map name (compiledPatterns dollar_mp))
   \<and> name (hd (compiledPatterns dollar_mp)) = ''amount''
   \<and> maskedPrefix (hd (compiledPatterns dollar_mp)) = ''$''"
  using generateMaskedValue_pattern_prefix [of "''amount''" dollar_mp "''42.50''"]
    generateMaskedValue_pattern_prefix [of "''amount''" example_mp "''42.50''"]
  by (simp add: digest_amount EncodeToString_def hex_byte_def hexdigit_def
        dollar_mp_def example_mp_def)

subsection \<open>The token store\<close>

text \<open>
  C1.  When the read answers anything but not-found, \<^verbatim>\<open>getMaskedValue\<close> sends the one
  \<^verbatim>\<open>GET\<close> and nothing else: no \<^verbatim>\<open>SET\<close> is attempted and nothing is logged.  When the
  answer is an error, that error, wrapped, is returned, and no masked value.  So a
  value is synthesized and written on a not-found answer only.
\<close>

theorem getMaskedValue_read_error_propagates:
  "client_Get (redisClient mp) (store w) (''mask:'' @ category @ '':'' @ originalValue) = (r, s)
   \<Longrightarrow> r \<noteq> Inl RedisNil
   \<Longrightarrow> (\<forall>e. r = Inl e \<longrightarrow>
          getMaskedValue mp w originalValue category =
            (Inl (Errorf ''redis get error: '' e),
             w\<lparr>store := s,
               sent := sent w @ [GET (''mask:'' @ category @ '':'' @ originalValue)]\<rparr>))
       \<and> sent (snd (getMaskedValue mp w originalValue category)) =
             sent w @ [GET (''mask:'' @ category @ '':'' @ originalValue)]
       \<and> store (snd (getMaskedValue mp w originalValue category)) = s
       \<and> logged (snd (getMaskedValue mp w originalValue category)) = logged w"
proof (cases r)
  case (Inl e)
  assume "client_Get (redisClient mp) (store w) (''mask:'' @ category @ '':'' @ originalValue) = (r, s)"
    and "r \<noteq> Inl RedisNil"
  with Inl show ?thesis
    by (simp add: getMaskedValue_on_error [of mp w category originalValue e s])
next
  case (Inr cached)
  assume "client_Get (redisClient mp) (store w) (''mask:'' @ category @ '':'' @ originalValue) = (r, s)"
  with Inr show ?thesis
    by (simp add: getMaskedValue_on_hit [of mp w category originalValue cached s])
qed

theorem getMaskedValue_read_error_propagates_witness:
  "client_Get (redisClient timeout_mp) (store (world_of server_up))
       (''mask:'' @ ''attribute_session'' @ '':'' @ ''abc'')
     = (Inl (TransportError ''i/o timeout''), server_up)
   \<and> Inl (TransportError ''i/o timeout'') \<noteq> (Inl RedisNil :: go_error + string)
   \<and> getMaskedValue timeout_mp (world_of server_up) ''abc'' ''attribute_session''
       = (Inl (Errorf ''redis get error: '' (TransportError ''i/o timeout'')),
          \<lparr>store = server_up, sent = [GET ''mask:attribute_session:abc''], logged = []\<rparr>)"
  using getMaskedValue_read_error_propagates [of timeout_mp "world_of server_up"
      "''attribute_session''" "''abc''" "Inl (TransportError ''i/o timeout'')" server_up]
  by (simp add: timeout_mp_def timeout_client_def world_of_def)

text \<open>
  C2, as amended.  When every read fails with a transport error, \<^verbatim>\<open>getMaskedValue\<close>
  returns the error of its read, wrapped, and no value; it has sent that \<^verbatim>\<open>GET\<close> and
  nothing else.  When the read answers not-found it returns what
  \<^verbatim>\<open>generateMaskedValue\<close> gives, whatever the writes answer.
\<close>

theorem getMaskedValue_store_unavailable:
  "((\<forall>k. \<exists>e s. client_Get (redisClient mp) (store w) k = (Inl e, s) \<and> e \<noteq> RedisNil)
      \<longrightarrow> (\<exists>e s. client_Get (redisClient mp) (store w)
                    (''mask:'' @ category @ '':'' @ originalValue) = (Inl e, s)
                \<and> e \<noteq> RedisNil
                \<and> getMaskedValue mp w originalValue category =
                    (Inl (Errorf ''redis get error: '' e),
                     w\<lparr>store := s,
                       sent := sent w @ [GET (''mask:'' @ category @ '':'' @ originalValue)]\<rparr>)))
   \<and> ((\<exists>s. client_Get (redisClient mp) (store w)
               (''mask:'' @ category @ '':'' @ originalValue) = (Inl RedisNil, s))
      \<longrightarrow> fst (getMaskedValue mp w originalValue category)
            = Inr (generateMaskedValue mp originalValue category))"
proof (intro conjI impI)
  assume "\<forall>k. \<exists>e s. client_Get (redisClient mp) (store w) k = (Inl e, s) \<and> e \<noteq> RedisNil"
  then obtain e s where
    g: "client_Get (redisClient mp) (store w) (''mask:'' @ category @ '':'' @ originalValue)
          = (Inl e, s)"
    and n: "e \<noteq> RedisNil"
    by blast
  have "getMaskedValue mp w originalValue category =
          (Inl (Errorf ''redis get error: '' e),
           w\<lparr>store := s,
             sent := sent w @ [GET (''mask:'' @ category @ '':'' @ originalValue)]\<rparr>)"
    by (rule getMaskedValue_on_error [OF g n])
  with g n show "\<exists>e s. client_Get (redisClient mp) (store w)
                    (''mask:'' @ category @ '':'' @ originalValue) = (Inl e, s)
                \<and> e \<noteq> RedisNil
                \<and> getMaskedValue mp w originalValue category =
                    (Inl (Errorf ''redis get error: '' e),
                     w\<lparr>store := s,
                       sent := sent w @ [GET (''mask:'' @ category @ '':'' @ originalValue)]\<rparr>)"
    by blast
next
  assume "\<exists>s. client_Get (redisClient mp) (store w)
            (''mask:'' @ category @ '':'' @ originalValue) = (Inl RedisNil, s)"
  then obtain s where "client_Get (redisClient mp) (store w)
            (''mask:'' @ category @ '':'' @ originalValue) = (Inl RedisNil, s)" ..
  then show "fst (getMaskedValue mp w originalValue category)
            = Inr (generateMaskedValue mp originalValue category)"
    by (rule getMaskedValue_on_miss(1))
qed

theorem getMaskedValue_store_unavailable_witness:
  "(\<forall>k. \<exists>e s. client_Get (redisClient refused_mp) (store (world_of server_up)) k = (Inl e, s)
        \<and> e \<noteq> RedisNil)
   \<and> client_Get (redisClient refused_mp) (store (world_of server_up))
         (''mask:'' @ ''ipv4'' @ '':'' @ ''1.2.3.4'')
       = (Inl (TransportError ''dial tcp: connection refused''), server_up)
   \<and> getMaskedValue refused_mp (world_of server_up) ''1.2.3.4'' ''ipv4''
       = (Inl (Errorf ''redis get error: '' (TransportError ''dial tcp: connection refused'')),
          \<lparr>store = server_up, sent = [GET ''mask:ipv4:1.2.3.4''], logged = []\<rparr>)
   \<and> (\<exists>s. client_Get (redisClient example_mp) (store (world_of server_readonly))
               (''mask:'' @ ''ipv4'' @ '':'' @ ''1.2.3.4'') = (Inl RedisNil, s))
   \<and> fst (getMaskedValue example_mp (world_of server_readonly) ''1.2.3.4'' ''ipv4'')
        = Inr ''10.217.115.103''"
  using getMaskedValue_store_unavailable [of refused_mp "world_of server_up" "''ipv4''" "''1.2.3.4''"]
    getMaskedValue_store_unavailable [of example_mp "world_of server_readonly" "''ipv4''" "''1.2.3.4''"]
    gen_ip [of example_mp]
  by (simp add: refused_mp_def refused_client_def example_mp_def server_client_def
        server_Get_def server_readonly_def world_of_def)

text \<open>
  C2 as stated fails: with a client whose connection is refused, so that every command
  fails, \<^verbatim>\<open>getMaskedValue\<close> returns the error of the read, not the synthesized value.
\<close>

theorem store_unavailable_counterexample:
  "fst (client_Get (redisClient refused_mp) (store (world_of server_up)) ''mask:ipv4:1.2.3.4'')
       = Inl (TransportError ''dial tcp: connection refused'')
   \<and> fst (getMaskedValue refused_mp (world_of server_up) ''1.2.3.4'' ''ipv4'')
       = Inl (Errorf ''redis get error: '' (TransportError ''dial tcp: connection refused''))
   \<and> fst (getMaskedValue refused_mp (world_of server_up) ''1.2.3.4'' ''ipv4'')
       \<noteq> Inr (generateMaskedValue refused_mp ''1.2.3.4'' ''ipv4'')"
  by (simp add: getMaskedValue_def redis_Get_def refused_mp_def refused_client_def world_of_def)

text \<open>
  C8.  After a not-found answer \<^verbatim>\<open>getMaskedValue\<close> returns the synthesized value
  whatever the two writes answer, and both writes are sent, the forward entry and the
  reverse entry.  An error it returns is the wrapped error of a read that failed with
  something other than not-found: no error comes from a write.
\<close>

theorem getMaskedValue_write_failures_swallowed:
  "((\<exists>s. client_Get (redisClient mp) (store w)
              (''mask:'' @ category @ '':'' @ originalValue) = (Inl RedisNil, s))
      \<longrightarrow> fst (getMaskedValue mp w originalValue category)
             = Inr (generateMaskedValue mp originalValue category)
          \<and> sent (snd (getMaskedValue mp w originalValue category)) =
              sent w @ [GET (''mask:'' @ category @ '':'' @ originalValue),
                 SET (''mask:'' @ category @ '':'' @ originalValue)
                     (generateMaskedValue mp originalValue category) (token_ttl mp),
                 SET (''unmask:'' @ category @ '':'' @ generateMaskedValue mp originalValue category)
                     originalValue (token_ttl mp)])
   \<and> (\<forall>err. fst (getMaskedValue mp w originalValue category) = Inl err \<longrightarrow>
         (\<exists>e. fst (client_Get (redisClient mp) (store w)
                     (''mask:'' @ category @ '':'' @ originalValue)) = Inl e
              \<and> e \<noteq> RedisNil \<and> err = Errorf ''redis get error: '' e))"
proof (intro conjI impI allI)
  assume "\<exists>s. client_Get (redisClient mp) (store w)
              (''mask:'' @ category @ '':'' @ originalValue) = (Inl RedisNil, s)"
  then obtain s where g: "client_Get (redisClient mp) (store w)
              (''mask:'' @ category @ '':'' @ originalValue) = (Inl RedisNil, s)" ..
  show "fst (getMaskedValue mp w originalValue category)
             = Inr (generateMaskedValue mp originalValue category)"
    by (rule getMaskedValue_on_miss(1) [OF g])
  show "sent (snd (getMaskedValue mp w originalValue category)) =
              sent w @ [GET (''mask:'' @ category @ '':'' @ originalValue),
                 SET (''mask:'' @ category @ '':'' @ originalValue)
                     (generateMaskedValue mp originalValue category) (token_ttl mp),
                 SET (''unmask:'' @ category @ '':'' @ generateMaskedValue mp originalValue category)
                     originalValue (token_ttl mp)]"
    by (rule getMaskedValue_on_miss(2) [OF g])
next
  fix err
  assume a: "fst (getMaskedValue mp w originalValue category) = Inl err"
  obtain r s where g: "client_Get (redisClient mp) (store w)
              (''mask:'' @ category @ '':'' @ originalValue) = (r, s)"
    by (cases "client_Get (redisClient mp) (store w) (''mask:'' @ category @ '':'' @ originalValue)")
  show "\<exists>e. fst (client_Get (redisClient mp) (store w)
                     (''mask:'' @ category @ '':'' @ originalValue)) = Inl e
              \<and> e \<noteq> RedisNil \<and> err = Errorf ''redis get error: '' e"
  proof (cases r)
    case (Inr cached)
    with g a show ?thesis by (simp add: getMaskedValue_on_hit [of mp w category originalValue cached s])
  next
    case (Inl e)
    show ?thesis
    proof (cases "e = RedisNil")
      case True
      with Inl g a show ?thesis using getMaskedValue_on_miss(1) [of mp w category originalValue s] by simp
    next
      case False
      with Inl g a show ?thesis
        by (simp add: getMaskedValue_on_error [of mp w category originalValue e s])
    qed
  qed
qed

theorem getMaskedValue_write_failures_swallowed_witness:
  "(\<exists>s. client_Get (redisClient example_mp) (store (world_of server_readonly))
              (''mask:'' @ ''ipv4'' @ '':'' @ ''1.2.3.4'') = (Inl RedisNil, s))
   \<and> getMaskedValue example_mp (world_of server_readonly) ''1.2.3.4'' ''ipv4''
       = (Inr ''10.217.115.103'',
          \<lparr>store = server_readonly,
           sent = [GET ''mask:ipv4:1.2.3.4'', SET ''mask:ipv4:1.2.3.4'' ''10.217.115.103'' 0,
                   SET ''unmask:ipv4:10.217.115.103'' ''1.2.3.4'' 0],
           logged = [(''Failed to store masked value in Redis'',
                      [ZapError (TransportError ''READONLY'')])]\<rparr>)
   \<and> fst (getMaskedValue timeout_mp (world_of server_up) ''abc'' ''attribute_session'')
       = Inl (Errorf ''redis get error: '' (TransportError ''i/o timeout''))
   \<and> fst (client_Get (redisClient timeout_mp) (store (world_of server_up))
              (''mask:'' @ ''attribute_session'' @ '':'' @ ''abc''))
       = Inl (TransportError ''i/o timeout'')"
  using getMaskedValue_write_failures_swallowed [of example_mp "world_of server_readonly"
      "''ipv4''" "''1.2.3.4''"]
    getMaskedValue_write_failures_swallowed [of timeout_mp "world_of server_up"
      "''attribute_session''" "''abc''"]
    gen_ip [of example_mp] session_get
  by (simp add: getMaskedValue_def redis_Get_def redis_Set_def logger_Error_def token_ttl_def
        Let_def example_mp_def example_config_def server_client_def server_Get_def
        server_Set_def server_readonly_def world_of_def timeout_mp_def timeout_client_def)

subsection \<open>The masking engine\<close>

text \<open>A loop over a slice keeps what its body keeps, returns when its body does.\<close>

lemma getMaskedValue_fails:
  assumes "\<exists>e s'. client_Get (redisClient mp) (store w) (''mask:'' @ c @ '':'' @ v) = (Inl e, s') \<and> e \<noteq> RedisNil"
  shows "\<exists>e w'. getMaskedValue mp w v c = (Inl e, w')"
  using assms getMaskedValue_on_error [of mp w c v] by blast

lemma maskFields_read_fails:
  "read_fails_for mp k v \<Longrightarrow> fst (maskFields mp k fs v w) = v"
proof (induction fs arbitrary: w)
  case Nil
  then show ?case by simp
next
  case (Cons f fs)
  from Cons.prems obtain e w' where
    "getMaskedValue mp w (AsString v) (''attribute_'' @ k) = (Inl e, w')"
    using getMaskedValue_fails [of mp w "''attribute_'' @ k" "AsString v"]
    unfolding read_fails_for_def by blast
  with Cons show ?case by (cases "k = f") simp_all
qed

lemma maskAttributes_kept:
  "list_all2 (attr_kept mp) kvs (fst (maskAttributes mp kvs w))"
proof (induction kvs arbitrary: w)
  case Nil
  then show ?case by simp
next
  case (Cons kv kvs)
  obtain k v where kv: "kv = (k, v)" by (cases kv)
  obtain v1 w1 where f: "maskFields mp k (FieldsToMask (config mp)) v w = (v1, w1)"
    by (cases "maskFields mp k (FieldsToMask (config mp)) v w")
  obtain kvs1 w2 where a: "maskAttributes mp kvs w1 = (kvs1, w2)"
    by (cases "maskAttributes mp kvs w1")
  have "attr_kept mp (k, v) (k, v1)"
    using maskFields_read_fails [of mp k v "FieldsToMask (config mp)" w] f
    by (simp add: attr_kept_def)
  moreover have "list_all2 (attr_kept mp) kvs kvs1"
    using Cons.IH [of w1] a by simp
  ultimately show ?case
    using kv f a by simp
qed

lemma maskLogRecord_kept:
  "maskLogRecord mp w lr = Inr (err, lr', w') \<Longrightarrow> err = None \<and> record_kept mp lr lr'"
  using maskAttributes_kept [of mp "Attributes lr" w]
  by (auto simp: maskLogRecord_def record_kept_def split: prod.splits Value.splits sum.splits if_splits)

lemma processRecord_kept:
  "processRecord mp lr w = Inr (lr', w') \<Longrightarrow> record_kept mp lr lr'"
  using maskLogRecord_kept [of mp w lr]
  by (auto simp: processRecord_def split: sum.splits prod.splits option.splits)

lemma forEach_rel:
  "(\<And>x w y w'. f x w = Inr (y, w') \<Longrightarrow> R x y) \<Longrightarrow> forEach f xs w = Inr (ys, w')
   \<Longrightarrow> list_all2 R xs ys"
proof (induction xs arbitrary: w ys)
  case Nil
  then show ?case by simp
next
  case (Cons x xs)
  from Cons.prems(2) obtain y w1 ys1 where
    "f x w = Inr (y, w1)" and "forEach f xs w1 = Inr (ys1, w')" and "ys = y # ys1"
    by (auto split: sum.splits prod.splits)
  then show ?case using Cons.IH [of w1 ys1] Cons.prems(1) by simp
qed

lemma forEach_total:
  "(\<And>x w. \<exists>y w'. f x w = Inr (y, w')) \<Longrightarrow> \<exists>ys w'. forEach f xs w = Inr (ys, w')"
proof (induction xs arbitrary: w)
  case Nil
  then show ?case by simp
next
  case (Cons x xs)
  obtain y w1 where "f x w = Inr (y, w1)" using Cons.prems by blast
  moreover obtain ys w2 where "forEach f xs w1 = Inr (ys, w2)" using Cons.IH Cons.prems by blast
  ultimately show ?case by simp
qed

lemma forEach_same:
  "(\<And>x w. \<exists>w'. f x w = Inr (x, w')) \<Longrightarrow> \<exists>w'. forEach f xs w = Inr (xs, w')"
proof (induction xs arbitrary: w)
  case Nil
  then show ?case by simp
next
  case (Cons x xs)
  obtain w1 where "f x w = Inr (x, w1)" using Cons.prems by blast
  moreover obtain w2 where "forEach f xs w1 = Inr (xs, w2)" using Cons.IH Cons.prems by blast
  ultimately show ?case by simp
qed

lemma ReplaceAllString_QuoteMeta_total:
  "MustCompile_QuoteMeta m = None \<Longrightarrow> \<exists>r. ReplaceAllString_QuoteMeta m src repl = Inr r"
  by (simp add: ReplaceAllString_QuoteMeta_def)

lemma maskMatches_total:
  "\<forall>m \<in> set ms. MustCompile_QuoteMeta m = None
   \<Longrightarrow> \<exists>r w'. maskMatches mp p ms result w = Inr (r, w')"
proof (induction ms arbitrary: result w)
  case Nil
  then show ?case by simp
next
  case (Cons m ms)
  obtain res w1 where g: "getMaskedValue mp w m (name p) = (res, w1)"
    by (cases "getMaskedValue mp w m (name p)")
  show ?case
  proof (cases res)
    case (Inl e)
    with g Cons show ?thesis by simp
  next
    case (Inr mv)
    obtain r1 where "ReplaceAllString_QuoteMeta m result mv = Inr r1"
      using ReplaceAllString_QuoteMeta_total [of m result mv] Cons.prems by auto
    with g Inr Cons show ?thesis by simp
  qed
qed

lemma maskPatterns_total:
  "\<forall>p \<in> set ps. \<forall>t. \<forall>m \<in> set (regex p t). MustCompile_QuoteMeta m = None
   \<Longrightarrow> \<exists>r w'. maskPatterns mp ps src w = Inr (r, w')"
proof (induction ps arbitrary: src w)
  case Nil
  then show ?case by simp
next
  case (Cons p ps)
  obtain r1 w1 where "maskMatches mp p (regex p src) src w = Inr (r1, w1)"
    using maskMatches_total [of "regex p src" mp p src w] Cons.prems by auto
  moreover obtain r2 w2 where "maskPatterns mp ps r1 w1 = Inr (r2, w2)"
    using Cons.IH [of r1 w1] Cons.prems by auto
  ultimately show ?case by simp
qed

lemma maskLogRecord_total:
  "matches_valid mp \<Longrightarrow> \<exists>lr' w'. maskLogRecord mp w lr = Inr (None, lr', w')"
proof -
  assume v: "matches_valid mp"
  obtain attrs w1 where a: "maskAttributes mp (Attributes lr) w = (attrs, w1)"
    by (cases "maskAttributes mp (Attributes lr) w")
  show ?thesis
  proof (cases "Body lr")
    case (ValueStr b)
    obtain r w2 where "maskPatternsInString mp w1 b = Inr (r, w2)"
      using maskPatterns_total [of "compiledPatterns mp" mp b w1] v
      unfolding matches_valid_def maskPatternsInString_def by auto
    with a ValueStr show ?thesis by (simp add: maskLogRecord_def)
  next
    case (ValueOther t s)
    with a show ?thesis by (simp add: maskLogRecord_def)
  qed
qed

lemma processRecord_total:
  "matches_valid mp \<Longrightarrow> \<exists>lr' w'. processRecord mp lr w = Inr (lr', w')"
  using maskLogRecord_total [of mp w lr] by (auto simp: processRecord_def)

lemma getMaskedValue_reads_fail:
  "reads_fail mp \<Longrightarrow> \<exists>e w'. getMaskedValue mp w v c = (Inl e, w')"
  using getMaskedValue_fails [of mp w c v] unfolding reads_fail_def by blast

lemma maskFields_reads_fail:
  "reads_fail mp \<Longrightarrow> \<exists>w'. maskFields mp k fs v w = (v, w')"
proof (induction fs arbitrary: w)
  case Nil
  then show ?case by simp
next
  case (Cons f fs)
  obtain e w1 where "getMaskedValue mp w (AsString v) (''attribute_'' @ k) = (Inl e, w1)"
    using getMaskedValue_reads_fail [OF Cons.prems] by blast
  with Cons show ?case by (cases "k = f") simp_all
qed

lemma maskAttributes_reads_fail:
  "reads_fail mp \<Longrightarrow> \<exists>w'. maskAttributes mp kvs w = (kvs, w')"
proof (induction kvs arbitrary: w)
  case Nil
  then show ?case by simp
next
  case (Cons kv kvs)
  obtain k v where kv: "kv = (k, v)" by (cases kv)
  obtain w1 where "maskFields mp k (FieldsToMask (config mp)) v w = (v, w1)"
    using maskFields_reads_fail [OF Cons.prems] by blast
  moreover obtain w2 where "maskAttributes mp kvs w1 = (kvs, w2)"
    using Cons.IH [OF Cons.prems] by blast
  ultimately show ?case using kv by simp
qed

lemma maskMatches_reads_fail:
  "reads_fail mp \<Longrightarrow> \<exists>w'. maskMatches mp p ms result w = Inr (result, w')"
proof (induction ms arbitrary: w)
  case Nil
  then show ?case by simp
next
  case (Cons m ms)
  obtain e w1 where "getMaskedValue mp w m (name p) = (Inl e, w1)"
    using getMaskedValue_reads_fail [OF Cons.prems] by blast
  with Cons show ?case by simp
qed

lemma maskPatterns_reads_fail:
  "reads_fail mp \<Longrightarrow> \<exists>w'. maskPatterns mp ps src w = Inr (src, w')"
proof (induction ps arbitrary: w)
  case Nil
  then show ?case by simp
next
  case (Cons p ps)
  obtain w1 where "maskMatches mp p (regex p src) src w = Inr (src, w1)"
    using maskMatches_reads_fail [OF Cons.prems] by blast
  moreover obtain w2 where "maskPatterns mp ps src w1 = Inr (src, w2)"
    using Cons.IH [OF Cons.prems] by blast
  ultimately show ?case by simp
qed

lemma maskLogRecord_reads_fail:
  "reads_fail mp \<Longrightarrow> \<exists>w'. maskLogRecord mp w lr = Inr (None, lr, w')"
proof -
  assume r: "reads_fail mp"
  obtain w1 where a: "maskAttributes mp (Attributes lr) w = (Attributes lr, w1)"
    using maskAttributes_reads_fail [OF r] by blast
  show ?thesis
  proof (cases "Body lr")
    case (ValueStr b)
    obtain w2 where "maskPatternsInString mp w1 b = Inr (b, w2)"
      using maskPatterns_reads_fail [OF r] unfolding maskPatternsInString_def by blast
    with a ValueStr show ?thesis by (simp add: maskLogRecord_def)
  next
    case (ValueOther t s)
    with a show ?thesis by (simp add: maskLogRecord_def)
  qed
qed

lemma processRecord_reads_fail:
  "reads_fail mp \<Longrightarrow> \<exists>w'. processRecord mp lr w = Inr (lr, w')"
  using maskLogRecord_reads_fail [of mp w lr] by (auto simp: processRecord_def)

text \<open>The runs of the examples.\<close>

lemmas run_defs =
  processLogs_def processRecord_def maskLogRecord_def maskPatternsInString_def
  getMaskedValue_def redis_Get_def redis_Set_def logger_Error_def token_ttl_def Let_def
  ReplaceAllString_QuoteMeta_def MustCompile_QuoteMeta_def maxRunes_def rune_width_def
  byte_in_def Expand_def literal_regex_def world_of_def server_Get_def server_Set_def server_up_def
  server_client_def timeout_client_def refused_client_def
  example_mp_def example_config_def timeout_mp_def refused_mp_def
  example_batch_def example_record_def int_body_record_def

lemma example_run:
  "processLogs timeout_mp (world_of server_up) example_batch =
     Inr (example_batch_masked, None, example_world_after)"
  by (simp add: run_defs gen_ip gen_alice example_batch_masked_def example_world_after_def)

lemma example_attrs_run:
  "maskAttributes timeout_mp (Attributes example_record) (world_of server_up) =
    ([(''username'', ValueStr ''username-553c8493a142''), (''session'', ValueStr ''abc'')],
     example_world_after\<lparr>
       store := \<lparr>entries =
           [(''unmask:attribute_username:username-553c8493a142'', ''alice''),
            (''mask:attribute_username:alice'', ''username-553c8493a142'')],
         readonly = False\<rparr>,
       sent := take 4 (sent example_world_after)\<rparr>)"
  by (simp add: run_defs gen_alice example_world_after_def)

lemma example_record_run:
  "maskLogRecord timeout_mp (world_of server_up) example_record =
     Inr (None, hd (hd (hd example_batch_masked)), example_world_after)"
  by (simp add: run_defs gen_ip gen_alice example_batch_masked_def example_world_after_def)

lemma int_body_attrs_run:
  "maskAttributes example_mp (Attributes int_body_record) (world_of server_up) =
     ([(''username'', ValueStr ''username-553c8493a142'')],
      \<lparr>store =
         \<lparr>entries =
            [(''unmask:attribute_username:username-553c8493a142'', ''alice''),
             (''mask:attribute_username:alice'', ''username-553c8493a142'')],
            readonly = False\<rparr>,
       sent =
           [GET ''mask:attribute_username:alice'',
            SET ''mask:attribute_username:alice'' ''username-553c8493a142'' 0,
            SET ''unmask:attribute_username:username-553c8493a142'' ''alice'' 0],
       logged = []\<rparr>)"
  by (simp add: run_defs gen_alice)

lemma dollar_get:
  "getMaskedValue dollar_mp (world_of server_up) ''42.50'' ''amount'' =
     (Inr ''$37de40af1005'', dollar_world_after)"
  using gen_amount
  by (simp add: run_defs dollar_mp_def dollar_config_def word_sless_alt dollar_world_after_def)

lemma set_find_from: "set (find_from k lit t) \<subseteq> {lit}"
  by (induction k lit t rule: find_from.induct) auto

lemma matches_valid_example: "matches_valid timeout_mp"
proof -
  have "MustCompile_QuoteMeta ''1.2.3.4'' = None"
    by (simp add: MustCompile_QuoteMeta_def maxRunes_def rune_width_def byte_in_def)
  moreover have "\<And>t m. m \<in> set (literal_regex ''1.2.3.4'' t) \<Longrightarrow> m = ''1.2.3.4''"
    using set_find_from [of 0 "''1.2.3.4''"] unfolding literal_regex_def by blast
  ultimately show ?thesis
    by (auto simp: matches_valid_def timeout_mp_def example_mp_def)
qed

lemma read_fails_for_session: "read_fails_for timeout_mp ''session'' (ValueStr ''abc'')"
  by (simp add: read_fails_for_def timeout_mp_def timeout_client_def)

lemma reads_fail_refused: "reads_fail refused_mp"
  by (simp add: reads_fail_def refused_mp_def refused_client_def)

lemma record_Body_same: "Body lr = b \<Longrightarrow> lr\<lparr>Body := b\<rparr> = lr"
  by (cases lr) simp

text \<open>
  C7 fails on the code.  A pattern named \<^verbatim>\<open>amount\<close> has the masked prefix \<^verbatim>\<open>$\<close>.  In the
  text \<^verbatim>\<open>paid 42.50 today\<close> its one match, \<^verbatim>\<open>42.50\<close>, gets the masked value
  \<^verbatim>\<open>$37de40af1005\<close> from \<^verbatim>\<open>getMaskedValue\<close>, without error.  \<^verbatim>\<open>ReplaceAllString\<close> reads
  that value as a template that names a capture group the pattern does not have, so the
  match is replaced by the empty string: the result is \<^verbatim>\<open>paid  today\<close>, not the text with
  the masked value in the place of the match.
\<close>

theorem maskPatternsInString_dollar_prefix:
  "getMaskedValue dollar_mp (world_of server_up) ''42.50'' ''amount''
     = (Inr ''$37de40af1005'', dollar_world_after)
   \<and> maskPatternsInString dollar_mp (world_of server_up) ''paid 42.50 today''
     = Inr (''paid  today'', dollar_world_after)"
  using dollar_get
  by (simp add: maskPatternsInString_def dollar_mp_def literal_regex_def
      ReplaceAllString_QuoteMeta_def MustCompile_QuoteMeta_def maxRunes_def rune_width_def
      byte_in_def Expand_def extract_name_def is_name_rune_def unicode_IsLetter_def
      unicode_IsDigit_def rune_value_def is_digit_def submatch_def name_index_def)

text \<open>
  A name may be made of letters beyond ASCII: after the dollar sign, the two bytes of
  U+00E9 are a name too, and the match is replaced by the empty string.
\<close>

lemma rune_value_e_acute: "rune_value [CHR 0xC3, CHR 0xA9] = 233"
  by (simp add: rune_value_def rune_width_def rune_first_def byte_in_def)

lemma is_name_rune_e_acute: "is_name_rune 233"
  by (simp add: is_name_rune_def unicode_IsLetter_def in_ranges_def letter_ranges_def)

lemma Expand_dollar_e_acute: "Expand (''$'' @ [CHR 0xC3, CHR 0xA9]) ''42.50'' = []"
  by (simp add: Expand_def extract_name_def rune_value_e_acute is_name_rune_e_acute
      rune_width_def rune_first_def byte_in_def submatch_def name_index_def is_digit_def)

text \<open>
  A masked value without a dollar sign is its own expansion, and then the replacement
  is the literal one: every occurrence of the match, from left to right and without
  overlap, gives way to the masked value.
\<close>

lemma Expand_no_dollar: "CHR ''$'' \<notin> set t \<Longrightarrow> Expand t m = t"
  by (induction t) (auto simp: Expand_def)

lemma ReplaceAllString_QuoteMeta_literal:
  "MustCompile_QuoteMeta m = None \<Longrightarrow> m \<noteq> [] \<Longrightarrow> CHR ''$'' \<notin> set repl
   \<Longrightarrow> ReplaceAllString_QuoteMeta m src repl = Inr (replace_from 0 m repl src)"
  by (simp add: ReplaceAllString_QuoteMeta_def Expand_no_dollar)

text \<open>
  C9 fails on the code.  The record has the attribute \<^verbatim>\<open>session\<close>, a field to mask whose
  read times out: the value is left as it was and the failure is logged.  Its body is
  not valid UTF-8 and is one match of the pattern; \<^verbatim>\<open>getMaskedValue\<close> succeeds for it,
  and \<^verbatim>\<open>MustCompile\<close> panics on the quoted match.  So \<^verbatim>\<open>processLogs\<close> does not return:
  it gives neither the batch nor an error.
\<close>

theorem processLogs_panics_on_invalid_match:
  "maskAttributes latin1_mp (Attributes latin1_record) (world_of server_up)
     = ([(''session'', ValueStr ''abc'')], latin1_world_attrs)
   \<and> regex (hd (compiledPatterns latin1_mp)) latin1_body = [latin1_body]
   \<and> fst (getMaskedValue latin1_mp latin1_world_attrs latin1_body ''word'')
       = Inr (generateMaskedValue latin1_mp latin1_body ''word'')
   \<and> MustCompile_QuoteMeta latin1_body = Some (InvalidUTF8 latin1_body)
   \<and> processLogs latin1_mp (world_of server_up) [[[latin1_record]]]
       = Inl (InvalidUTF8 latin1_body)"
  by (simp add: processLogs_def processRecord_def maskLogRecord_def maskPatternsInString_def
      getMaskedValue_def redis_Get_def redis_Set_def logger_Error_def token_ttl_def Let_def
      ReplaceAllString_QuoteMeta_def MustCompile_QuoteMeta_def maxRunes_def rune_width_def
      rune_first_def byte_in_def world_of_def server_Get_def server_Set_def server_up_def
      timeout_client_def latin1_mp_def latin1_record_def latin1_body_def
      latin1_world_attrs_def nonspace_regex_def)

text \<open>
  What holds of \<^verbatim>\<open>processLogs\<close> all the same.  When it returns, the error is nil, every
  record has kept its attribute keys in order, and every attribute whose read fails
  whatever the state of the store has kept its value.  It returns when the parser
  accepts every match, quoted, whatever the store answers.  When every read fails it
  returns the batch as it was.  In the loop over the fields to mask, a call of
  \<^verbatim>\<open>getMaskedValue\<close> that fails leaves the value as it was and is logged.
\<close>

lemma processLogs_when_it_returns:
  "(\<forall>ld' err w'. processLogs mp w ld = Inr (ld', err, w') \<longrightarrow>
       err = None \<and> list_all2 (list_all2 (list_all2 (record_kept mp))) ld ld')
   \<and> (matches_valid mp \<longrightarrow> (\<exists>ld' w'. processLogs mp w ld = Inr (ld', None, w')))
   \<and> (reads_fail mp \<longrightarrow> (\<exists>w'. processLogs mp w ld = Inr (ld, None, w')))
   \<and> (\<forall>e w1. getMaskedValue mp w0 (AsString v) (''attribute_'' @ k) = (Inl e, w1) \<longrightarrow>
         maskFields mp k [k] v w0 =
           (v, logger_Error w1 ''Failed to mask attribute'' [ZapString ''key'' k, ZapError e]))"
proof (intro conjI allI impI)
  fix ld' err w'
  assume p: "processLogs mp w ld = Inr (ld', err, w')"
  then show "err = None" by (auto simp: processLogs_def split: sum.splits prod.splits)
  from p have f: "forEach (forEach (forEach (processRecord mp))) ld w = Inr (ld', w')"
    by (auto simp: processLogs_def split: sum.splits prod.splits)
  have r1: "\<And>x w y w'. forEach (processRecord mp) x w = Inr (y, w')
              \<Longrightarrow> list_all2 (record_kept mp) x y"
    by (rule forEach_rel [of "processRecord mp" "record_kept mp"]) (rule processRecord_kept)
  have r2: "\<And>x w y w'. forEach (forEach (processRecord mp)) x w = Inr (y, w')
              \<Longrightarrow> list_all2 (list_all2 (record_kept mp)) x y"
    by (rule forEach_rel [of "forEach (processRecord mp)" "list_all2 (record_kept mp)"]) (rule r1)
  show "list_all2 (list_all2 (list_all2 (record_kept mp))) ld ld'"
    by (rule forEach_rel [of "forEach (forEach (processRecord mp))"
          "list_all2 (list_all2 (record_kept mp))", OF r2 f])
next
  assume v: "matches_valid mp"
  have t1: "\<And>x w. \<exists>y w'. forEach (processRecord mp) x w = Inr (y, w')"
    by (rule forEach_total) (rule processRecord_total [OF v])
  have t2: "\<And>x w. \<exists>y w'. forEach (forEach (processRecord mp)) x w = Inr (y, w')"
    by (rule forEach_total) (rule t1)
  obtain ld' w' where "forEach (forEach (forEach (processRecord mp))) ld w = Inr (ld', w')"
    using forEach_total [of "forEach (forEach (processRecord mp))" ld w, OF t2] by blast
  then show "\<exists>ld' w'. processLogs mp w ld = Inr (ld', None, w')"
    by (simp add: processLogs_def)
next
  assume r: "reads_fail mp"
  have s1: "\<And>x w. \<exists>w'. forEach (processRecord mp) x w = Inr (x, w')"
    by (rule forEach_same) (rule processRecord_reads_fail [OF r])
  have s2: "\<And>x w. \<exists>w'. forEach (forEach (processRecord mp)) x w = Inr (x, w')"
    by (rule forEach_same) (rule s1)
  obtain w' where "forEach (forEach (forEach (processRecord mp))) ld w = Inr (ld, w')"
    using forEach_same [of "forEach (forEach (processRecord mp))" ld w, OF s2] by blast
  then show "\<exists>w'. processLogs mp w ld = Inr (ld, None, w')"
    by (simp add: processLogs_def)
next
  fix e w1
  assume "getMaskedValue mp w0 (AsString v) (''attribute_'' @ k) = (Inl e, w1)"
  then show "maskFields mp k [k] v w0 =
           (v, logger_Error w1 ''Failed to mask attribute'' [ZapString ''key'' k, ZapError e])"
    by simp
qed

lemma processLogs_when_it_returns_example:
  "processLogs timeout_mp (world_of server_up) example_batch
     = Inr (example_batch_masked, None, example_world_after)
   \<and> list_all2 (list_all2 (list_all2 (record_kept timeout_mp))) example_batch example_batch_masked
   \<and> read_fails_for timeout_mp ''session'' (ValueStr ''abc'')
   \<and> matches_valid timeout_mp
   \<and> reads_fail refused_mp
   \<and> (\<exists>w'. processLogs refused_mp (world_of server_up) example_batch
              = Inr (example_batch, None, w'))
   \<and> getMaskedValue timeout_mp (world_of server_up) (AsString (ValueStr ''abc''))
         (''attribute_'' @ ''session'')
       = (Inl (Errorf ''redis get error: '' (TransportError ''i/o timeout'')),
          \<lparr>store = server_up, sent = [GET ''mask:attribute_session:abc''], logged = []\<rparr>)
   \<and> fst (maskFields timeout_mp ''session'' [''session''] (ValueStr ''abc'') (world_of server_up))
       = ValueStr ''abc''"
  using processLogs_when_it_returns [of timeout_mp "world_of server_up" example_batch
      "world_of server_up" "ValueStr ''abc''" "''session''"]
    processLogs_when_it_returns [of refused_mp "world_of server_up" example_batch]
    example_run matches_valid_example read_fails_for_session reads_fail_refused session_get
  by simp

text \<open>
  C10.  With the attributes masked first, a record whose body is not a string gets its
  new attributes and nothing else: the body is as it was, no pattern is applied and the
  store is as the attributes left it.  A body that is a string becomes the text
  \<^verbatim>\<open>maskPatternsInString\<close> gives for it; writing it only when it differs from the
  original gives the same record.
\<close>

theorem maskLogRecord_body_frame:
  "maskAttributes mp (Attributes lr) w = (attrs, w1) \<Longrightarrow>
   ((\<forall>b. Body lr \<noteq> ValueStr b) \<longrightarrow>
       maskLogRecord mp w lr = Inr (None, lr\<lparr>Attributes := attrs\<rparr>, w1)
       \<and> Body (lr\<lparr>Attributes := attrs\<rparr>) = Body lr)
   \<and> (\<forall>b. Body lr = ValueStr b \<longrightarrow>
         maskLogRecord mp w lr =
           (case maskPatternsInString mp w1 b of
              Inl p \<Rightarrow> Inl p
            | Inr (m, w2) \<Rightarrow> Inr (None, lr\<lparr>Attributes := attrs, Body := ValueStr m\<rparr>, w2)))"
proof (cases "Body lr")
  case (ValueStr b)
  assume a: "maskAttributes mp (Attributes lr) w = (attrs, w1)"
  have "(lr\<lparr>Attributes := attrs\<rparr>)\<lparr>Body := ValueStr b\<rparr> = lr\<lparr>Attributes := attrs\<rparr>"
    by (rule record_Body_same) (simp add: ValueStr)
  with a ValueStr show ?thesis
    by (auto simp: maskLogRecord_def split: sum.splits prod.splits)
next
  case (ValueOther t s)
  assume a: "maskAttributes mp (Attributes lr) w = (attrs, w1)"
  with ValueOther show ?thesis by (simp add: maskLogRecord_def)
qed

theorem maskLogRecord_body_frame_witness:
  "maskAttributes example_mp (Attributes int_body_record) (world_of server_up) =
     ([(''username'', ValueStr ''username-553c8493a142'')],
      \<lparr>store =
         \<lparr>entries =
            [(''unmask:attribute_username:username-553c8493a142'', ''alice''),
             (''mask:attribute_username:alice'', ''username-553c8493a142'')],
            readonly = False\<rparr>,
       sent =
           [GET ''mask:attribute_username:alice'',
            SET ''mask:attribute_username:alice'' ''username-553c8493a142'' 0,
            SET ''unmask:attribute_username:username-553c8493a142'' ''alice'' 0],
       logged = []\<rparr>)
   \<and> (\<forall>b. Body int_body_record \<noteq> ValueStr b)
   \<and> (\<exists>lr' w'. maskLogRecord example_mp (world_of server_up) int_body_record = Inr (None, lr', w')
         \<and> Body lr' = ValueOther ValueTypeInt ''1234''
         \<and> Attributes lr' = [(''username'', ValueStr ''username-553c8493a142'')])
   \<and> Body example_record = ValueStr ''from 1.2.3.4''
   \<and> (\<exists>lr' w'. maskLogRecord timeout_mp (world_of server_up) example_record = Inr (None, lr', w')
         \<and> Body lr' = ValueStr ''from 10.217.115.103'')"
  using maskLogRecord_body_frame [OF int_body_attrs_run]
    maskLogRecord_body_frame [OF example_attrs_run]
    int_body_attrs_run example_record_run
  by (simp add: int_body_record_def example_record_def example_batch_masked_def)

end
